theory Spec2Isabelle
  imports Main "HOL-Library.Log_Nat"
begin

section \<open>JavaScript values as the handlers see them\<close>

text \<open>
  A request body is what \<^verbatim>\<open>bodyParser.json()\<close> hands to a handler: a JSON value. A property
  that is missing reads as \<^verbatim>\<open>undefined\<close>. Numbers are restricted to integers; instants
  (the \<^verbatim>\<open>DATE\<close> and \<^verbatim>\<open>TIMESTAMP\<close> columns) are numbers too, the text form in which they travel
  is not modelled. An object is the list of its own properties, each key once.
\<close>

datatype jsval =
    JUndefined
  | JNull
  | JBool bool
  | JNum int
  | JStr string
  | JArr "jsval list"
  | JObj "(string \<times> jsval) list"

text \<open>ToBoolean: \<^verbatim>\<open>undefined\<close>, \<^verbatim>\<open>null\<close>, \<^verbatim>\<open>false\<close>, \<^verbatim>\<open>0\<close> and \<^verbatim>\<open>""\<close> are falsy.\<close>

fun truthy :: "jsval \<Rightarrow> bool" where
  "truthy JUndefined = False"
| "truthy JNull = False"
| "truthy (JBool b) = b"
| "truthy (JNum n) = (n \<noteq> 0)"
| "truthy (JStr s) = (s \<noteq> [])"
| "truthy (JArr xs) = True"
| "truthy (JObj kvs) = True"

text \<open>\<^verbatim>\<open>a || b\<close>\<close>

definition js_or :: "jsval \<Rightarrow> jsval \<Rightarrow> jsval" where
  "js_or a b = (if truthy a then a else b)"

datatype js_error = TypeError string

text \<open>
  \<^verbatim>\<open>v.k\<close> for the property names the handlers read (\<^verbatim>\<open>email\<close>, \<^verbatim>\<open>name\<close>, \<^verbatim>\<open>taskName\<close>, ...):
  none of them is a property of a string, a number, a boolean or an array, so only an
  object can answer with something other than \<^verbatim>\<open>undefined\<close>; on \<^verbatim>\<open>undefined\<close> and
  \<^verbatim>\<open>null\<close> the access throws.
\<close>

fun get_prop :: "jsval \<Rightarrow> string \<Rightarrow> js_error + jsval" where
  "get_prop JUndefined k = Inl (TypeError (''Cannot read properties of undefined (reading '' @ k @ '')''))"
| "get_prop JNull k = Inl (TypeError (''Cannot read properties of null (reading '' @ k @ '')''))"
| "get_prop (JObj kvs) k = Inr (case map_of kvs k of None \<Rightarrow> JUndefined | Some v \<Rightarrow> v)"
| "get_prop v k = Inr JUndefined"

text \<open>\<^verbatim>\<open>v?.k\<close>: \<^verbatim>\<open>undefined\<close> instead of the throw.\<close>

definition opt_prop :: "jsval \<Rightarrow> string \<Rightarrow> jsval" where
  "opt_prop v k = (case get_prop v k of Inl e \<Rightarrow> JUndefined | Inr x \<Rightarrow> x)"

text \<open>
  \<^verbatim>\<open>d.k\<close> where \<^verbatim>\<open>d = req.body\<close>: the body parser only lets objects and arrays through (and
  supplies \<^verbatim>\<open>{}\<close> when there is no body), so this access never throws.
\<close>

definition field :: "jsval \<Rightarrow> string \<Rightarrow> jsval" where
  "field d k = opt_prop d k"

subsection \<open>Strings\<close>

text \<open>\<^verbatim>\<open>s.split(' ')\<close>: the pieces between single spaces; the empty string gives one empty piece.\<close>

fun js_split :: "char \<Rightarrow> string \<Rightarrow> string list" where
  "js_split c [] = [[]]"
| "js_split c (x # xs) =
     (if x = c then [] # js_split c xs
      else (case js_split c xs of [] \<Rightarrow> [[x]] | w # ws \<Rightarrow> (x # w) # ws))"

text \<open>\<^verbatim>\<open>xs[i]\<close>: \<^verbatim>\<open>undefined\<close> beyond the end.\<close>

definition js_index :: "'a list \<Rightarrow> nat \<Rightarrow> 'a option" where
  "js_index xs i = (if i < length xs then Some (xs ! i) else None)"

text \<open>White space of \<^verbatim>\<open>String.prototype.trim\<close> within ASCII: tab, LF, VT, FF, CR, space.\<close>

definition is_space :: "char \<Rightarrow> bool" where
  "is_space c = (of_char c \<in> {9, 10, 11, 12, 13, 32 :: nat})"

definition trim :: "string \<Rightarrow> string" where
  "trim s = rev (dropWhile is_space (rev (dropWhile is_space s)))"

text \<open>\<^verbatim>\<open>x || ''\<close> on a value that is a string, \<^verbatim>\<open>null\<close> or \<^verbatim>\<open>undefined\<close> (\<^verbatim>\<open>None\<close>).\<close>

definition or_empty :: "string option \<Rightarrow> string" where
  "or_empty x = (case x of None \<Rightarrow> [] | Some s \<Rightarrow> s)"

definition opt_str :: "string option \<Rightarrow> jsval" where
  "opt_str x = (case x of None \<Rightarrow> JNull | Some s \<Rightarrow> JStr s)"

section \<open>The libraries around the handlers\<close>

text \<open>
  \<^verbatim>\<open>bcrypt\<close> and \<^verbatim>\<open>jsonwebtoken\<close> are not part of the repository: they are parameters. \<^verbatim>\<open>bcrypt.hash\<close>
  with cost factor 10 (the salt is the environment's), \<^verbatim>\<open>bcrypt.compare\<close>, \<^verbatim>\<open>jwt.sign\<close> with the
  process secret and a one hour expiry, \<^verbatim>\<open>jwt.verify\<close> with the process secret, which answers
  the decoded claims object or fails (bad signature, malformed, expired).
\<close>

record env =
  bcrypt_hash :: "string \<Rightarrow> string"
  bcrypt_compare :: "string \<Rightarrow> string \<Rightarrow> bool"
  jwt_sign :: "(string \<times> jsval) list \<Rightarrow> string"
  jwt_verify :: "string \<Rightarrow> (string \<times> jsval) list option"

section \<open>The relational store\<close>

text \<open>The error object a rejected \<^verbatim>\<open>pool.query\<close> carries: SQLSTATE in \<^verbatim>\<open>code\<close>, and \<^verbatim>\<open>message\<close>.\<close>

record db_error =
  code :: "string option"
  message :: string

text \<open>The \<^verbatim>\<open>users\<close> table: the \<^verbatim>\<open>CREATE TABLE\<close> columns and the six added profile columns.\<close>

record user_row =
  uid :: int
  email :: string
  password :: string
  first_name :: "string option"
  last_name :: "string option"
  phone :: "string option"
  role :: "string option"
  department :: "string option"
  bio :: "string option"

text \<open>The \<^verbatim>\<open>delegations\<close> table: a row gives every column a value, \<^verbatim>\<open>JNull\<close> for SQL NULL.\<close>

datatype column =
    Id | Task_name | Assigned_by | Assigned_to | Planned_date | Priority | Message
  | Attachments | Assigned_pc | Group_name | Notify_to | Auditor
  | Make_attachment_mandatory | Make_note_mandatory | Notify_doer | Set_reminder
  | Reminder_mode | Reminder_frequency | Reminder_before_days | Reminder_starting_time
  | Status | Created_at | Completed_at | Notes

type_synonym delegation_row = "column \<Rightarrow> jsval"

definition columns :: "column list" where
  "columns = [Id, Task_name, Assigned_by, Assigned_to, Planned_date, Priority, Message,
     Attachments, Assigned_pc, Group_name, Notify_to, Auditor,
     Make_attachment_mandatory, Make_note_mandatory, Notify_doer, Set_reminder,
     Reminder_mode, Reminder_frequency, Reminder_before_days, Reminder_starting_time,
     Status, Created_at, Completed_at, Notes]"

fun column_name :: "column \<Rightarrow> string" where
  "column_name Id = ''id''"
| "column_name Task_name = ''task_name''"
| "column_name Assigned_by = ''assigned_by''"
| "column_name Assigned_to = ''assigned_to''"
| "column_name Planned_date = ''planned_date''"
| "column_name Priority = ''priority''"
| "column_name Message = ''message''"
| "column_name Attachments = ''attachments''"
| "column_name Assigned_pc = ''assigned_pc''"
| "column_name Group_name = ''group_name''"
| "column_name Notify_to = ''notify_to''"
| "column_name Auditor = ''auditor''"
| "column_name Make_attachment_mandatory = ''make_attachment_mandatory''"
| "column_name Make_note_mandatory = ''make_note_mandatory''"
| "column_name Notify_doer = ''notify_doer''"
| "column_name Set_reminder = ''set_reminder''"
| "column_name Reminder_mode = ''reminder_mode''"
| "column_name Reminder_frequency = ''reminder_frequency''"
| "column_name Reminder_before_days = ''reminder_before_days''"
| "column_name Reminder_starting_time = ''reminder_starting_time''"
| "column_name Status = ''status''"
| "column_name Created_at = ''created_at''"
| "column_name Completed_at = ''completed_at''"
| "column_name Notes = ''notes''"

text \<open>The columns declared \<^verbatim>\<open>NOT NULL\<close> (\<^verbatim>\<open>id\<close> through its primary key).\<close>

definition not_null_columns :: "column list" where
  "not_null_columns = [Id, Task_name, Assigned_by, Assigned_to]"

text \<open>
  The state of the store. \<^verbatim>\<open>fault\<close> is the environment's: when it is set the store cannot
  be reached (or its pool is exhausted) and every statement is rejected with that error.
  \<^verbatim>\<open>clock\<close> is the store's \<^verbatim>\<open>CURRENT_TIMESTAMP\<close>. The two sequences feed the \<^verbatim>\<open>SERIAL\<close> keys.
\<close>

record store =
  users :: "user_row list"
  delegations :: "delegation_row list"
  next_user_id :: int
  next_delegation_id :: int
  clock :: nat
  fault :: "db_error option"

text \<open>
  The driver binds \<^verbatim>\<open>undefined\<close> as NULL. Every other value is kept as it is: how the driver
  renders a number or an object as text, and the casts and length checks of the column
  types, are not modelled.
\<close>

definition bind :: "jsval \<Rightarrow> jsval" where
  "bind v = (if v = JUndefined then JNull else v)"

definition unique_violation :: db_error where
  "unique_violation = \<lparr>code = Some ''23505'',
     message = ''duplicate key value violates unique constraint \"users_email_key\"''\<rparr>"

definition not_null_violation :: "column \<Rightarrow> db_error" where
  "not_null_violation c = \<lparr>code = Some ''23502'',
     message = ''null value in column \"'' @ column_name c @ ''\" violates not-null constraint''\<rparr>"

subsection \<open>Statements on \<^verbatim>\<open>users\<close>\<close>

text \<open>\<^verbatim>\<open>INSERT INTO users (email, password) VALUES ($1, $2)\<close>\<close>

definition insert_user :: "store \<Rightarrow> string \<Rightarrow> string \<Rightarrow> db_error + store" where
  "insert_user st e h =
     (case fault st of
        Some err \<Rightarrow> Inl err
      | None \<Rightarrow>
          if e \<in> set (map email (users st)) then Inl unique_violation
          else Inr (st\<lparr>users := users st @
                  [\<lparr>uid = next_user_id st, email = e, password = h, first_name = None,
                    last_name = None, phone = None, role = None, department = None,
                    bio = None\<rparr>],
                 next_user_id := next_user_id st + 1\<rparr>))"

text \<open>\<^verbatim>\<open>SELECT * FROM users WHERE email = $1\<close>; the parameter is a JavaScript value.\<close>

definition select_user :: "store \<Rightarrow> jsval \<Rightarrow> db_error + user_row list" where
  "select_user st e =
     (case fault st of
        Some err \<Rightarrow> Inl err
      | None \<Rightarrow> Inr (filter (\<lambda>u. JStr (email u) = e) (users st)))"

text \<open>\<^verbatim>\<open>SELECT email, first_name, last_name, role, department, phone FROM users\<close>\<close>

definition select_users :: "store \<Rightarrow> db_error + user_row list" where
  "select_users st = (case fault st of Some err \<Rightarrow> Inl err | None \<Rightarrow> Inr (users st))"

text \<open>\<^verbatim>\<open>UPDATE users SET first_name=$1, ..., bio=$6 WHERE email=$7\<close>\<close>

record profile_fields =
  pf_first_name :: "string option"
  pf_last_name :: "string option"
  pf_phone :: "string option"
  pf_role :: "string option"
  pf_department :: "string option"
  pf_bio :: "string option"

definition update_profile :: "store \<Rightarrow> profile_fields \<Rightarrow> jsval \<Rightarrow> db_error + store" where
  "update_profile st p e =
     (case fault st of
        Some err \<Rightarrow> Inl err
      | None \<Rightarrow>
          Inr (st\<lparr>users := map (\<lambda>u. if JStr (email u) = e
                  then u\<lparr>first_name := pf_first_name p, last_name := pf_last_name p,
                         phone := pf_phone p, role := pf_role p,
                         department := pf_department p, bio := pf_bio p\<rparr>
                  else u) (users st)\<rparr>))"

text \<open>\<^verbatim>\<open>UPDATE users SET password = $1 WHERE email = $2\<close>\<close>

definition update_password :: "store \<Rightarrow> string \<Rightarrow> jsval \<Rightarrow> db_error + store" where
  "update_password st h e =
     (case fault st of
        Some err \<Rightarrow> Inl err
      | None \<Rightarrow>
          Inr (st\<lparr>users := map (\<lambda>u. if JStr (email u) = e then u\<lparr>password := h\<rparr> else u)
                  (users st)\<rparr>))"

section \<open>Responses\<close>

record response =
  status :: nat
  body :: jsval

text \<open>\<^verbatim>\<open>res.json(b)\<close> answers 200; \<^verbatim>\<open>res.status(n).json(b)\<close> answers \<^verbatim>\<open>n\<close>.\<close>

definition json :: "jsval \<Rightarrow> response" where
  "json b = \<lparr>status = 200, body = b\<rparr>"

definition status_json :: "nat \<Rightarrow> jsval \<Rightarrow> response" where
  "status_json n b = \<lparr>status = n, body = b\<rparr>"

definition success :: jsval where
  "success = JObj [(''success'', JBool True)]"

definition error_body :: "string \<Rightarrow> jsval" where
  "error_body m = JObj [(''error'', JStr m)]"

definition error_details :: "string \<Rightarrow> string \<Rightarrow> jsval" where
  "error_details m d = JObj [(''error'', JStr m), (''details'', JStr d)]"

section \<open>Credentials: \<^verbatim>\<open>/register\<close> and \<^verbatim>\<open>/login\<close>\<close>

text \<open>
  The \<^verbatim>\<open>email\<close> and \<^verbatim>\<open>password\<close> fields of the body are strings or missing (\<^verbatim>\<open>None\<close>);
  \<^verbatim>\<open>!x\<close> holds of a missing field and of the empty string. Past that check the field
  is its string (\<^verbatim>\<open>or_empty\<close> reads it).
\<close>

definition missing :: "string option \<Rightarrow> bool" where
  "missing x = (case x of None \<Rightarrow> True | Some s \<Rightarrow> s = [])"

definition register :: "env \<Rightarrow> store \<Rightarrow> string option \<Rightarrow> string option \<Rightarrow> response \<times> store" where
  "register E st em pw =
     (if missing em \<or> missing pw then (status_json 400 (error_body ''Missing fields''), st)
      else
        let hashed = bcrypt_hash E (or_empty pw) in
        case insert_user st (or_empty em) hashed of
          Inr st' \<Rightarrow> (json success, st')
        | Inl err \<Rightarrow>
            if code err = Some ''23505''
            then (status_json 409 (error_body ''Email already exists''), st)
            else (status_json 500 (error_details ''Server error'' (message err)), st))"

definition login :: "env \<Rightarrow> store \<Rightarrow> string option \<Rightarrow> string option \<Rightarrow> response" where
  "login E st em pw =
     (if missing em \<or> missing pw then status_json 400 (error_body ''Missing fields'')
      else
        case select_user st (opt_str em) of
          Inl err \<Rightarrow> status_json 500 (error_body ''Server error'')
        | Inr rows \<Rightarrow>
            (case rows of
               [] \<Rightarrow> status_json 401 (error_body ''Invalid credentials'')
             | user # _ \<Rightarrow>
                 if \<not> bcrypt_compare E (or_empty pw) (password user)
                 then status_json 401 (error_body ''Invalid credentials'')
                 else
                   let token = jwt_sign E [(''email'', JStr (email user))]
                   in json (JObj [(''success'', JBool True), (''token'', JStr token)])))"

section \<open>Bearer tokens: \<^verbatim>\<open>authenticateToken\<close>\<close>

text \<open>
  \<^verbatim>\<open>authHeader && authHeader.split(' ')[1]\<close>: \<^verbatim>\<open>undefined\<close> without the header, the empty
  header itself when it is empty, otherwise the second piece between single spaces
  (\<^verbatim>\<open>undefined\<close> when there is none).
\<close>

definition token_of :: "string option \<Rightarrow> string option" where
  "token_of authHeader =
     (case authHeader of
        None \<Rightarrow> None
      | Some a \<Rightarrow> if a = [] then Some [] else js_index (js_split CHR '' '' a) 1)"

text \<open>
  The middleware either answers itself (\<^verbatim>\<open>Inl\<close>) or calls \<^verbatim>\<open>next()\<close> with \<^verbatim>\<open>req.user\<close> set to
  the verified claims (\<^verbatim>\<open>Inr\<close>).
\<close>

definition authenticateToken :: "env \<Rightarrow> string option \<Rightarrow> response + (string \<times> jsval) list" where
  "authenticateToken E authHeader =
     (let token = token_of authHeader in
      if missing token then Inl (status_json 401 (error_body ''No token provided''))
      else
        case jwt_verify E (or_empty token) of
          None \<Rightarrow> Inl (status_json 403 (error_body ''Invalid token''))
        | Some user \<Rightarrow> Inr user)"

text \<open>\<^verbatim>\<open>req.user.email\<close>\<close>

definition user_email :: "(string \<times> jsval) list \<Rightarrow> jsval" where
  "user_email user = opt_prop (JObj user) ''email''"

section \<open>Profile and password\<close>

definition profile_json :: "user_row \<Rightarrow> jsval" where
  "profile_json u = JObj [(''email'', JStr (email u)), (''first_name'', opt_str (first_name u)),
     (''last_name'', opt_str (last_name u)), (''phone'', opt_str (phone u)),
     (''role'', opt_str (role u)), (''department'', opt_str (department u)),
     (''bio'', opt_str (bio u))]"

definition get_profile :: "store \<Rightarrow> (string \<times> jsval) list \<Rightarrow> response" where
  "get_profile st user =
     (let email = user_email user in
      case select_user st (bind email) of
        Inl err \<Rightarrow> status_json 500 (error_body ''Server error'')
      | Inr rows \<Rightarrow>
          (case rows of
             [] \<Rightarrow> status_json 404 (error_body ''User not found'')
           | row # _ \<Rightarrow> json (profile_json row)))"

definition put_profile :: "store \<Rightarrow> (string \<times> jsval) list \<Rightarrow> profile_fields \<Rightarrow> response \<times> store" where
  "put_profile st user p =
     (let email = user_email user in
      case update_profile st p (bind email) of
        Inl err \<Rightarrow> (status_json 500 (error_body ''Server error''), st)
      | Inr st' \<Rightarrow> (json success, st'))"

definition change_password ::
  "env \<Rightarrow> store \<Rightarrow> (string \<times> jsval) list \<Rightarrow> string option \<Rightarrow> string option \<Rightarrow> response \<times> store" where
  "change_password E st user currentPassword newPassword =
     (let email = user_email user in
      if missing currentPassword \<or> missing newPassword
      then (status_json 400 (error_body ''Missing fields''), st)
      else
        case select_user st (bind email) of
          Inl err \<Rightarrow> (status_json 500 (error_body ''Server error''), st)
        | Inr rows \<Rightarrow>
            (case rows of
               [] \<Rightarrow> (status_json 404 (error_body ''User not found''), st)
             | u # _ \<Rightarrow>
                 if \<not> bcrypt_compare E (or_empty currentPassword) (password u)
                 then (status_json 401 (error_body ''Invalid current password''), st)
                 else
                   (case update_password st (bcrypt_hash E (or_empty newPassword)) (bind email) of
                      Inl err \<Rightarrow> (status_json 500 (error_body ''Server error''), st)
                    | Inr st' \<Rightarrow> (json success, st'))))"

section \<open>The delegation repository\<close>

subsection \<open>Statements on \<^verbatim>\<open>delegations\<close>\<close>

text \<open>\<^verbatim>\<open>ORDER BY key DESC\<close>: NULL sorts above every value; rows with equal keys keep the table's order.\<close>

fun desc_before :: "int option \<Rightarrow> int option \<Rightarrow> bool" where
  "desc_before None b = True"
| "desc_before (Some a) None = False"
| "desc_before (Some a) (Some b) = (b \<le> a)"

fun insert_desc :: "('a \<Rightarrow> int option) \<Rightarrow> 'a \<Rightarrow> 'a list \<Rightarrow> 'a list" where
  "insert_desc key x [] = [x]"
| "insert_desc key x (y # ys) =
     (if desc_before (key x) (key y) then x # y # ys else y # insert_desc key x ys)"

definition order_by_desc :: "('a \<Rightarrow> int option) \<Rightarrow> 'a list \<Rightarrow> 'a list" where
  "order_by_desc key xs = foldr (insert_desc key) xs []"

text \<open>The instant in a \<^verbatim>\<open>TIMESTAMP\<close> column as a sort key.\<close>

definition instant :: "jsval \<Rightarrow> int option" where
  "instant v = (case v of JNum t \<Rightarrow> Some t | _ \<Rightarrow> None)"

definition row_json :: "delegation_row \<Rightarrow> jsval" where
  "row_json r = JObj (map (\<lambda>c. (column_name c, r c)) columns)"

text \<open>The first \<^verbatim>\<open>NOT NULL\<close> column a row leaves NULL, if any.\<close>

definition null_column :: "delegation_row \<Rightarrow> column option" where
  "null_column r = find (\<lambda>c. r c = JNull) not_null_columns"

text \<open>\<^verbatim>\<open>SELECT * FROM delegations ORDER BY created_at DESC\<close>\<close>

definition select_delegations :: "store \<Rightarrow> db_error + delegation_row list" where
  "select_delegations st =
     (case fault st of
        Some err \<Rightarrow> Inl err
      | None \<Rightarrow> Inr (order_by_desc (\<lambda>r. instant (r Created_at)) (delegations st)))"

text \<open>
  \<^verbatim>\<open>INSERT INTO delegations (cols) VALUES (params) RETURNING *\<close>: the listed columns get their
  parameters, \<^verbatim>\<open>id\<close> the next key, \<^verbatim>\<open>created_at\<close> the store's clock, every other column NULL.
\<close>

definition new_row :: "store \<Rightarrow> (column \<times> jsval) list \<Rightarrow> delegation_row" where
  "new_row st params =
     (\<lambda>c. if c = Id then JNum (next_delegation_id st)
          else if c = Created_at then JNum (int (clock st))
          else case map_of params c of None \<Rightarrow> JNull | Some v \<Rightarrow> bind v)"

definition insert_delegation ::
  "store \<Rightarrow> (column \<times> jsval) list \<Rightarrow> db_error + (delegation_row \<times> store)" where
  "insert_delegation st params =
     (case fault st of
        Some err \<Rightarrow> Inl err
      | None \<Rightarrow>
          (case null_column (new_row st params) of
             Some c \<Rightarrow> Inl (not_null_violation c)
           | None \<Rightarrow>
               Inr (new_row st params,
                    st\<lparr>delegations := delegations st @ [new_row st params],
                       next_delegation_id := next_delegation_id st + 1\<rparr>)))"

text \<open>
  \<^verbatim>\<open>UPDATE delegations SET col=param, ... WHERE id=$23\<close>: every row with that id gets the
  parameters in the listed columns and keeps the others; the statement fails as a whole
  when a new row leaves a \<^verbatim>\<open>NOT NULL\<close> column NULL. The id is the integer the route
  parameter denotes.
\<close>

definition set_columns :: "(column \<times> jsval) list \<Rightarrow> delegation_row \<Rightarrow> delegation_row" where
  "set_columns params r = (\<lambda>c. case map_of params c of None \<Rightarrow> r c | Some v \<Rightarrow> bind v)"

definition updated_rows :: "store \<Rightarrow> (column \<times> jsval) list \<Rightarrow> int \<Rightarrow> delegation_row list" where
  "updated_rows st params i =
     map (\<lambda>r. if r Id = JNum i then set_columns params r else r) (delegations st)"

definition update_delegation ::
  "store \<Rightarrow> (column \<times> jsval) list \<Rightarrow> int \<Rightarrow> db_error + store" where
  "update_delegation st params i =
     (case fault st of
        Some err \<Rightarrow> Inl err
      | None \<Rightarrow>
          (case List.map_filter null_column
                  (filter (\<lambda>r. r Id = JNum i) (updated_rows st params i)) of
             c # _ \<Rightarrow> Inl (not_null_violation c)
           | [] \<Rightarrow> Inr (st\<lparr>delegations := updated_rows st params i\<rparr>)))"

text \<open>\<^verbatim>\<open>DELETE FROM delegations WHERE id = $1\<close>\<close>

definition delete_delegation_row :: "store \<Rightarrow> int \<Rightarrow> db_error + store" where
  "delete_delegation_row st i =
     (case fault st of
        Some err \<Rightarrow> Inl err
      | None \<Rightarrow> Inr (st\<lparr>delegations := filter (\<lambda>r. r Id \<noteq> JNum i) (delegations st)\<rparr>))"

subsection \<open>Handlers\<close>

definition get_delegations :: "store \<Rightarrow> response" where
  "get_delegations st =
     (case select_delegations st of
        Inl err \<Rightarrow> status_json 500 (error_body ''Server error'')
      | Inr rows \<Rightarrow> json (JArr (map row_json rows)))"

text \<open>The parameter list of \<^verbatim>\<open>POST /delegations\<close>, in the order of the statement.\<close>

definition create_params :: "jsval \<Rightarrow> (column \<times> jsval) list" where
  "create_params d =
     [(Task_name, field d ''taskName''),
      (Assigned_by, field d ''assignedBy''),
      (Assigned_to, field d ''assignedTo''),
      (Planned_date, field d ''plannedDate''),
      (Priority, field d ''priority''),
      (Message, field d ''message''),
      (Attachments, js_or (field d ''attachments'') (JArr [])),
      (Assigned_pc, field d ''assignedPC''),
      (Group_name, field d ''groupName''),
      (Notify_to, field d ''notifyTo''),
      (Auditor, field d ''auditor''),
      (Make_attachment_mandatory, field d ''makeAttachmentMandatory''),
      (Make_note_mandatory, field d ''makeNoteMandatory''),
      (Notify_doer, field d ''notifyDoer''),
      (Set_reminder, field d ''setReminder''),
      (Reminder_mode, field d ''reminderMode''),
      (Reminder_frequency, field d ''reminderFrequency''),
      (Reminder_before_days, field d ''reminderBeforeDays''),
      (Reminder_starting_time, field d ''reminderStartingTime''),
      (Status, field d ''status''),
      (Notes, field d ''notes'')]"

definition post_delegations :: "store \<Rightarrow> jsval \<Rightarrow> response \<times> store" where
  "post_delegations st d =
     (case insert_delegation st (create_params d) of
        Inl err \<Rightarrow> (status_json 500 (error_details ''Server error'' (message err)), st)
      | Inr (row, st') \<Rightarrow> (json (row_json row), st'))"

text \<open>\<^verbatim>\<open>d.assignedBy?.email || null\<close>, the same expression for each of the four participants.\<close>

definition participant :: "jsval \<Rightarrow> jsval" where
  "participant v = js_or (opt_prop v ''email'') JNull"

text \<open>\<^verbatim>\<open>f => f.name || f\<close>; \<^verbatim>\<open>f.name\<close> throws on a \<^verbatim>\<open>null\<close> entry.\<close>

definition attachment_name :: "jsval \<Rightarrow> js_error + jsval" where
  "attachment_name f = (case get_prop f ''name'' of Inl e \<Rightarrow> Inl e | Inr n \<Rightarrow> Inr (js_or n f))"

text \<open>\<^verbatim>\<open>xs.map(f)\<close> with a callback that may throw: the first throw ends it.\<close>

fun map_throw :: "('a \<Rightarrow> 'e + 'b) \<Rightarrow> 'a list \<Rightarrow> 'e + 'b list" where
  "map_throw f [] = Inr []"
| "map_throw f (x # xs) =
     (case f x of
        Inl e \<Rightarrow> Inl e
      | Inr y \<Rightarrow> (case map_throw f xs of Inl e \<Rightarrow> Inl e | Inr ys \<Rightarrow> Inr (y # ys)))"

text \<open>\<^verbatim>\<open>Array.isArray(d.attachments) ? d.attachments.map(f => f.name || f) : []\<close>\<close>

definition attachment_names :: "jsval \<Rightarrow> js_error + jsval" where
  "attachment_names a =
     (case a of
        JArr fs \<Rightarrow> (case map_throw attachment_name fs of Inl e \<Rightarrow> Inl e | Inr ns \<Rightarrow> Inr (JArr ns))
      | _ \<Rightarrow> Inr (JArr []))"

text \<open>The parameter list of \<^verbatim>\<open>PUT /delegations/:id\<close> without the id, given the attachment names.\<close>

definition update_params :: "jsval \<Rightarrow> jsval \<Rightarrow> (column \<times> jsval) list" where
  "update_params d names =
     [(Task_name, field d ''taskName''),
      (Assigned_by, participant (field d ''assignedBy'')),
      (Assigned_to, participant (field d ''assignedTo'')),
      (Planned_date, field d ''plannedDate''),
      (Priority, field d ''priority''),
      (Message, field d ''message''),
      (Attachments, names),
      (Assigned_pc, field d ''assignedPC''),
      (Group_name, field d ''groupName''),
      (Notify_to, participant (field d ''notifyTo'')),
      (Auditor, participant (field d ''auditor'')),
      (Make_attachment_mandatory, field d ''makeAttachmentMandatory''),
      (Make_note_mandatory, field d ''makeNoteMandatory''),
      (Notify_doer, field d ''notifyDoer''),
      (Set_reminder, field d ''setReminder''),
      (Reminder_mode, field d ''reminderMode''),
      (Reminder_frequency, field d ''reminderFrequency''),
      (Reminder_before_days, field d ''reminderBeforeDays''),
      (Reminder_starting_time, field d ''reminderStartingTime''),
      (Status, field d ''status''),
      (Completed_at, field d ''completedAt''),
      (Notes, field d ''notes'')]"

text \<open>A thrown \<^verbatim>\<open>TypeError\<close> lands in the same \<^verbatim>\<open>catch\<close> as a store error; \<^verbatim>\<open>err.message\<close> of it.\<close>

fun js_message :: "js_error \<Rightarrow> string" where
  "js_message (TypeError m) = m"

definition put_delegation :: "store \<Rightarrow> int \<Rightarrow> jsval \<Rightarrow> response \<times> store" where
  "put_delegation st i d =
     (case attachment_names (field d ''attachments'') of
        Inl e \<Rightarrow> (status_json 500 (error_details ''Server error'' (js_message e)), st)
      | Inr names \<Rightarrow>
          (case update_delegation st (update_params d names) i of
             Inl err \<Rightarrow> (status_json 500 (error_details ''Server error'' (message err)), st)
           | Inr st' \<Rightarrow> (json success, st')))"

definition delete_delegation :: "store \<Rightarrow> int \<Rightarrow> response \<times> store" where
  "delete_delegation st i =
     (case delete_delegation_row st i of
        Inl err \<Rightarrow> (status_json 500 (error_details ''Server error'' (message err)), st)
      | Inr st' \<Rightarrow> (json success, st'))"

section \<open>Analytics\<close>

text \<open>
  The handlers below issue several statements one after the other; a rejected one sends
  control to the \<^verbatim>\<open>catch\<close> and the rest is not run.
\<close>

definition and_then :: "'e + 'a \<Rightarrow> ('a \<Rightarrow> 'e + 'b) \<Rightarrow> 'e + 'b" where
  "and_then r f = (case r of Inl e \<Rightarrow> Inl e | Inr x \<Rightarrow> f x)"

text \<open>\<^verbatim>\<open>SELECT COUNT(*) FROM delegations WHERE ...\<close>; \<^verbatim>\<open>Number(rows[0].count)\<close> is that count.\<close>

definition count_where :: "store \<Rightarrow> (delegation_row \<Rightarrow> bool) \<Rightarrow> db_error + nat" where
  "count_where st P =
     (case fault st of Some err \<Rightarrow> Inl err | None \<Rightarrow> Inr (length (filter P (delegations st))))"

definition has_status :: "string \<Rightarrow> delegation_row \<Rightarrow> bool" where
  "has_status s r = (r Status = JStr s)"

definition assigned :: "string \<Rightarrow> delegation_row \<Rightarrow> bool" where
  "assigned e r = (r Assigned_to = JStr e)"

text \<open>
  \<^verbatim>\<open>SELECT assigned_to, COUNT(*) as completed FROM delegations WHERE status = 'Completed'
  GROUP BY assigned_to ORDER BY completed DESC LIMIT 3\<close>. SQL leaves the order of the groups
  and of equal counts open; here it is the table's order.
\<close>

definition top_performers_rows :: "store \<Rightarrow> db_error + (jsval \<times> nat) list" where
  "top_performers_rows st =
     (case fault st of
        Some err \<Rightarrow> Inl err
      | None \<Rightarrow>
          Inr (take 3 (order_by_desc (\<lambda>g. Some (int (snd g)))
                 (map (\<lambda>a. (a, count_list
                                (map (\<lambda>r. r Assigned_to)
                                   (filter (has_status ''Completed'') (delegations st))) a))
                    (remdups (map (\<lambda>r. r Assigned_to)
                                (filter (has_status ''Completed'') (delegations st))))))))"

text \<open>
  \<^verbatim>\<open>SELECT task_name, assigned_to, completed_at FROM delegations WHERE status = 'Completed'
  ORDER BY completed_at DESC LIMIT 3\<close>
\<close>

definition recent_rows :: "store \<Rightarrow> db_error + delegation_row list" where
  "recent_rows st =
     (case fault st of
        Some err \<Rightarrow> Inl err
      | None \<Rightarrow>
          Inr (take 3 (order_by_desc (\<lambda>r. instant (r Completed_at))
                 (filter (has_status ''Completed'') (delegations st)))))"

text \<open>\<^verbatim>\<open>`${u.first_name || ''} ${u.last_name || ''}`\<close>\<close>

definition full_name :: "user_row \<Rightarrow> string" where
  "full_name u = or_empty (first_name u) @ '' '' @ or_empty (last_name u)"

text \<open>
  \<^verbatim>\<open>SELECT first_name, last_name FROM users WHERE email = $1\<close> with the row's \<^verbatim>\<open>assigned_to\<close>,
  then \<^verbatim>\<open>userRes.rows[0] ? `...`.trim() : row.assigned_to\<close>.
\<close>

definition display_name :: "store \<Rightarrow> jsval \<Rightarrow> db_error + jsval" where
  "display_name st assigned_to =
     (case select_user st assigned_to of
        Inl err \<Rightarrow> Inl err
      | Inr rows \<Rightarrow>
          Inr (case rows of [] \<Rightarrow> assigned_to | u # _ \<Rightarrow> JStr (trim (full_name u))))"

definition top_performer :: "store \<Rightarrow> jsval \<times> nat \<Rightarrow> db_error + jsval" where
  "top_performer st row =
     and_then (display_name st (fst row)) (\<lambda>name.
       Inr (JObj [(''name'', name), (''completed'', JNum (int (snd row)))]))"

definition recent_entry :: "store \<Rightarrow> delegation_row \<Rightarrow> db_error + jsval" where
  "recent_entry st row =
     and_then (display_name st (row Assigned_to)) (\<lambda>user.
       Inr (JObj [(''task'', row Task_name), (''user'', user), (''date'', row Completed_at)]))"

definition analytics_report :: "store \<Rightarrow> db_error + jsval" where
  "analytics_report st =
     and_then (count_where st (\<lambda>r. True)) (\<lambda>totalResult.
     and_then (count_where st (has_status ''Completed'')) (\<lambda>completedResult.
     and_then (count_where st (has_status ''Pending'')) (\<lambda>pendingResult.
     and_then (count_where st (has_status ''Overdue'')) (\<lambda>overdueResult.
     and_then (top_performers_rows st) (\<lambda>topPerformersResult.
     and_then (map_throw (top_performer st) topPerformersResult) (\<lambda>topPerformers.
     and_then (recent_rows st) (\<lambda>recentActivityResult.
     and_then (map_throw (recent_entry st) recentActivityResult) (\<lambda>recentActivity.
       Inr (JObj [(''totalDelegations'', JNum (int totalResult)),
                  (''completedDelegations'', JNum (int completedResult)),
                  (''pendingDelegations'', JNum (int pendingResult)),
                  (''overdueDelegations'', JNum (int overdueResult)),
                  (''topPerformers'', JArr topPerformers),
                  (''recentActivity'', JArr recentActivity)])))))))))"

definition get_analytics :: "store \<Rightarrow> response" where
  "get_analytics st =
     (case analytics_report st of
        Inl err \<Rightarrow> status_json 500 (error_details ''Server error'' (message err))
      | Inr report \<Rightarrow> json report)"

section \<open>Team\<close>

subsection \<open>Number arithmetic\<close>

text \<open>
  \<^verbatim>\<open>completedTasks / totalTasks\<close> and \<^verbatim>\<open>... * 100\<close> are operations on IEEE 754 doubles: each
  returns the double nearest to the exact result, ties to the even significand. \<^verbatim>\<open>fl\<close> is
  that rounding on a rational, for the normal range (the quotients and products of counts
  are far from overflow and underflow). A double has a 53 bit significand: with
  \<open>2 ^ e \<le> \<bar>x\<bar> < 2 ^ (e + 1)\<close> it is a multiple of \<open>2 ^ (e - 52)\<close>.
\<close>

definition floor_log2 :: "rat \<Rightarrow> int" where
  "floor_log2 x =
     (if 1 \<le> x then int (floorlog 2 (nat \<lfloor>x\<rfloor>)) - 1
      else - int (floorlog 2 (nat (\<lceil>1 / x\<rceil> - 1))))"

definition round_half_even :: "rat \<Rightarrow> int" where
  "round_half_even y =
     (if y - of_int \<lfloor>y\<rfloor> < 1 / 2 then \<lfloor>y\<rfloor>
      else if 1 / 2 < y - of_int \<lfloor>y\<rfloor> then \<lfloor>y\<rfloor> + 1
      else if even \<lfloor>y\<rfloor> then \<lfloor>y\<rfloor> else \<lfloor>y\<rfloor> + 1)"

definition fl :: "rat \<Rightarrow> rat" where
  "fl x =
     (if x = 0 then 0
      else sgn x * of_int (round_half_even (\<bar>x\<bar> / 2 powi (floor_log2 \<bar>x\<bar> - 52)))
             * 2 powi (floor_log2 \<bar>x\<bar> - 52))"

definition js_div :: "rat \<Rightarrow> rat \<Rightarrow> rat" where
  "js_div a b = fl (a / b)"

definition js_mul :: "rat \<Rightarrow> rat \<Rightarrow> rat" where
  "js_mul a b = fl (a * b)"

text \<open>\<^verbatim>\<open>Math.round\<close>: the nearest integer, a tie goes up.\<close>

definition math_round :: "rat \<Rightarrow> int" where
  "math_round x = \<lfloor>x + 1 / 2\<rfloor>"

text \<open>
  \<^verbatim>\<open>totalTasks > 0 ? Math.round((completedTasks / totalTasks) * 100) : 0\<close>. The counts are
  numbers read with \<^verbatim>\<open>Number(...)\<close>, exact below \<open>2 ^ 53\<close>.
\<close>

definition performanceScore :: "nat \<Rightarrow> nat \<Rightarrow> int" where
  "performanceScore totalTasks completedTasks =
     (if totalTasks > 0
      then math_round (js_mul (js_div (of_nat completedTasks) (of_nat totalTasks)) 100)
      else 0)"

subsection \<open>The report\<close>

text \<open>\<^verbatim>\<open>`${user.first_name || ''} ${user.last_name || ''}`.trim() || user.email\<close>\<close>

definition team_name :: "user_row \<Rightarrow> string" where
  "team_name user = (if trim (full_name user) \<noteq> [] then trim (full_name user) else email user)"

definition team_member :: "store \<Rightarrow> user_row \<Rightarrow> db_error + jsval" where
  "team_member st user =
     and_then (count_where st (assigned (email user))) (\<lambda>assignedResult.
     and_then (count_where st (\<lambda>r. assigned (email user) r \<and> has_status ''Completed'' r)) (\<lambda>completedResult.
     and_then (count_where st (\<lambda>r. assigned (email user) r \<and> has_status ''In Progress'' r)) (\<lambda>inProgressResult.
     and_then (count_where st (\<lambda>r. assigned (email user) r \<and> has_status ''Pending'' r)) (\<lambda>pendingResult.
     and_then (count_where st (\<lambda>r. assigned (email user) r \<and> has_status ''Overdue'' r)) (\<lambda>overdueResult.
       Inr (JObj [(''id'', JStr (email user)),
                  (''name'', JStr (team_name user)),
                  (''email'', JStr (email user)),
                  (''role'', opt_str (role user)),
                  (''department'', opt_str (department user)),
                  (''phone'', opt_str (phone user)),
                  (''status'', JStr ''Active''),
                  (''tasksAssigned'', JNum (int assignedResult)),
                  (''tasksCompleted'', JNum (int completedResult)),
                  (''tasksInProgress'', JNum (int inProgressResult)),
                  (''tasksPending'', JNum (int pendingResult)),
                  (''tasksOverdue'', JNum (int overdueResult)),
                  (''performanceScore'',
                     JNum (performanceScore assignedResult completedResult))]))))))"

definition team_report :: "store \<Rightarrow> db_error + jsval" where
  "team_report st =
     and_then (select_users st) (\<lambda>usersResult.
     and_then (map_throw (team_member st) usersResult) (\<lambda>users.
       Inr (JArr users)))"

definition get_team :: "store \<Rightarrow> response" where
  "get_team st =
     (case team_report st of
        Inl err \<Rightarrow> status_json 500 (error_details ''Server error'' (message err))
      | Inr report \<Rightarrow> json report)"

section \<open>The application\<close>

text \<open>
  A request names its route and carries what the route's handler reads: body fields and
  the \<^verbatim>\<open>:id\<close> parameter (the integer it denotes). The \<^verbatim>\<open>authorization\<close> header travels
  beside it.
\<close>

datatype request =
    PostRegister "string option" "string option"
  | PostLogin "string option" "string option"
  | GetProfile
  | PutProfile profile_fields
  | PostChangePassword "string option" "string option"
  | GetDelegations
  | PostDelegations jsval
  | PutDelegation int jsval
  | DeleteDelegation int
  | GetAnalytics
  | GetTeam

text \<open>The routes registered with \<^verbatim>\<open>authenticateToken\<close> in front of the handler.\<close>

definition protected :: "env \<Rightarrow> string option \<Rightarrow> store \<Rightarrow>
    ((string \<times> jsval) list \<Rightarrow> response \<times> store) \<Rightarrow> response \<times> store" where
  "protected E authHeader st handler =
     (case authenticateToken E authHeader of
        Inl answer \<Rightarrow> (answer, st)
      | Inr user \<Rightarrow> handler user)"

fun app :: "env \<Rightarrow> store \<Rightarrow> string option \<Rightarrow> request \<Rightarrow> response \<times> store" where
  "app E st authHeader (PostRegister em pw) = register E st em pw"
| "app E st authHeader (PostLogin em pw) = (login E st em pw, st)"
| "app E st authHeader GetProfile =
     protected E authHeader st (\<lambda>user. (get_profile st user, st))"
| "app E st authHeader (PutProfile p) =
     protected E authHeader st (\<lambda>user. put_profile st user p)"
| "app E st authHeader (PostChangePassword cur new) =
     protected E authHeader st (\<lambda>user. change_password E st user cur new)"
| "app E st authHeader GetDelegations = (get_delegations st, st)"
| "app E st authHeader (PostDelegations d) = post_delegations st d"
| "app E st authHeader (PutDelegation i d) = put_delegation st i d"
| "app E st authHeader (DeleteDelegation i) = delete_delegation st i"
| "app E st authHeader GetAnalytics = (get_analytics st, st)"
| "app E st authHeader GetTeam = (get_team st, st)"

section \<open>Fixtures\<close>

text \<open>
  A toy environment and small stores on which the theorems below are instantiated. The
  toy hash prefixes the password, the toy token prefixes the email claim.
\<close>

definition example_env :: env where
  "example_env =
     \<lparr>bcrypt_hash = (\<lambda>p. ''$2b$10$'' @ p),
      bcrypt_compare = (\<lambda>p h. h = ''$2b$10$'' @ p),
      jwt_sign = (\<lambda>claims. case map_of claims ''email'' of Some (JStr e) \<Rightarrow> ''tok.'' @ e | _ \<Rightarrow> ''tok.''),
      jwt_verify = (\<lambda>t. if take 4 t = ''tok.'' then Some [(''email'', JStr (drop 4 t))] else None)\<rparr>"


text \<open>Ann has no stored names, Bob has both.\<close>

definition ann :: user_row where
  "ann = \<lparr>uid = 1, email = ''a@x.com'', password = ''$2b$10$pw1'', first_name = None,
     last_name = None, phone = None, role = None, department = None, bio = None\<rparr>"

definition bob :: user_row where
  "bob = \<lparr>uid = 2, email = ''b@x.com'', password = ''$2b$10$pw2'', first_name = Some ''Bob'',
     last_name = Some ''Ray'', phone = None, role = Some ''Lead'', department = None, bio = None\<rparr>"

definition example_row :: "int \<Rightarrow> string \<Rightarrow> string \<Rightarrow> string \<Rightarrow> jsval \<Rightarrow> delegation_row" where
  "example_row i task to_email st_name done =
     (\<lambda>c. JNull)(Id := JNum i, Task_name := JStr task, Assigned_by := JStr ''b@x.com'',
        Assigned_to := JStr to_email, Attachments := JArr [], Status := JStr st_name,
        Created_at := JNum i, Completed_at := done)"

text \<open>Two users; Ann has two delegations, one of them completed; a third goes to a stranger.\<close>

definition example_store :: store where
  "example_store =
     \<lparr>users = [ann, bob],
      delegations = [example_row 1 ''Audit'' ''a@x.com'' ''Completed'' (JNum 20),
                     example_row 2 ''Report'' ''a@x.com'' ''In Progress'' JNull,
                     example_row 3 ''Survey'' ''z@x.com'' ''Completed'' (JNum 30)],
      next_user_id = 3, next_delegation_id = 4, clock = 40, fault = None\<rparr>"

text \<open>A store whose three delegations are Completed, Pending and Overdue.\<close>

definition tidy_store :: store where
  "tidy_store =
     \<lparr>users = [ann],
      delegations = [example_row 1 ''Audit'' ''a@x.com'' ''Completed'' (JNum 20),
                     example_row 2 ''Report'' ''a@x.com'' ''Pending'' JNull,
                     example_row 3 ''Survey'' ''a@x.com'' ''Overdue'' JNull],
      next_user_id = 2, next_delegation_id = 4, clock = 40, fault = None\<rparr>"



text \<open>Ann alone, with forty delegations of which the first twenty-three are completed.\<close>

definition busy_store :: store where
  "busy_store =
     \<lparr>users = [ann],
      delegations =
        map (\<lambda>i. example_row (int i) ''Task'' ''a@x.com'' ''Completed'' (JNum (int i))) [1..<24]
        @ map (\<lambda>i. example_row (int i) ''Task'' ''a@x.com'' ''Pending'' JNull) [24..<41],
      next_user_id = 2, next_delegation_id = 41, clock = 50, fault = None\<rparr>"

section \<open>Route classes\<close>

text \<open>
  The delegation and reporting routes: \<^verbatim>\<open>GET\<close> and \<^verbatim>\<open>POST /delegations\<close>, \<^verbatim>\<open>PUT\<close> and
  \<^verbatim>\<open>DELETE /delegations/:id\<close>, \<^verbatim>\<open>GET /analytics\<close>, \<^verbatim>\<open>GET /team\<close>.
\<close>

fun delegation_or_report :: "request \<Rightarrow> bool" where
  "delegation_or_report GetDelegations = True"
| "delegation_or_report (PostDelegations d) = True"
| "delegation_or_report (PutDelegation i d) = True"
| "delegation_or_report (DeleteDelegation i) = True"
| "delegation_or_report GetAnalytics = True"
| "delegation_or_report GetTeam = True"
| "delegation_or_report req = False"


section \<open>Credentials\<close>








section \<open>Delegations\<close>



section \<open>Routes without the token middleware\<close>

lemma open_handlers_status:
  "status (get_delegations st) \<in> {200, 500}"
  "status (fst (post_delegations st d)) \<in> {200, 500}"
  "status (fst (put_delegation st i d)) \<in> {200, 500}"
  "status (fst (delete_delegation st i)) \<in> {200, 500}"
  "status (get_analytics st) \<in> {200, 500}"
  "status (get_team st) \<in> {200, 500}"
  by (simp_all add: get_delegations_def post_delegations_def put_delegation_def
      delete_delegation_def get_analytics_def get_team_def json_def status_json_def
      split: sum.splits prod.splits)

text \<open>
  Claim C2. On the delegation routes and on \<^verbatim>\<open>/analytics\<close> and \<^verbatim>\<open>/team\<close> the response and
  the resulting store are the same whatever the \<^verbatim>\<open>authorization\<close> header is (absent or
  any string), and the status is 200 or 500, never 401 or 403.
\<close>

theorem delegation_routes_ignore_authorization:
  assumes "delegation_or_report req"
  shows "app E st h1 req = app E st h2 req
       \<and> status (fst (app E st h1 req)) \<in> {200, 500}
       \<and> status (fst (app E st h1 req)) \<noteq> 401
       \<and> status (fst (app E st h1 req)) \<noteq> 403"
proof -
  have same: "app E st h1 req = app E st h2 req"
    using assms by (cases req) simp_all
  have range: "status (fst (app E st h1 req)) \<in> {200, 500}"
    using assms by (cases req) (simp_all only: app.simps fst_conv open_handlers_status
        delegation_or_report.simps)
  from range have "status (fst (app E st h1 req)) \<noteq> 401"
    and "status (fst (app E st h1 req)) \<noteq> 403"
    by auto
  with same range show ?thesis by simp
qed

text \<open>
  On the fixture: \<^verbatim>\<open>GET /team\<close> without a header and with a junk bearer token are answered
  alike and not with 401 or 403, while \<^verbatim>\<open>GET /profile\<close> without a header is answered 401.
\<close>

theorem delegation_routes_ignore_authorization_witness:
  "delegation_or_report GetTeam
   \<and> app example_env example_store None GetTeam
       = app example_env example_store (Some ''Bearer junk'') GetTeam
   \<and> status (fst (app example_env example_store None GetTeam)) \<noteq> 401
   \<and> status (fst (app example_env example_store None GetTeam)) \<noteq> 403
   \<and> status (fst (app example_env example_store None GetProfile)) = 401"
proof -
  have route: "delegation_or_report GetTeam" by simp
  have profile: "status (fst (app example_env example_store None GetProfile)) = 401"
    by (simp add: protected_def authenticateToken_def token_of_def missing_def status_json_def)
  from delegation_routes_ignore_authorization [OF route, of example_env example_store None
      "Some ''Bearer junk''"] route profile
  show ?thesis by blast
qed

section \<open>Routes behind the token middleware\<close>

lemma first_row_find:
  "(case filter P xs of [] \<Rightarrow> a | x # rest \<Rightarrow> f x) = (case find P xs of None \<Rightarrow> a | Some x \<Rightarrow> f x)"
  by (induction xs) simp_all




section \<open>Reports on a store that answers\<close>

lemma and_then_simps [simp]:
  "and_then (Inr x) f = f x"
  "and_then (Inl e) f = Inl e"
  by (simp_all add: and_then_def)

lemma count_where_ok:
  "fault st = None \<Longrightarrow> count_where st P = Inr (length (filter P (delegations st)))"
  by (simp add: count_where_def)

lemma map_throw_all:
  assumes "\<And>x. x \<in> set xs \<Longrightarrow> \<exists>y. f x = Inr y \<and> R x y"
  shows "\<exists>ys. map_throw f xs = Inr ys \<and> list_all2 R xs ys"
  using assms
proof (induction xs)
  case Nil
  then show ?case by simp
next
  case (Cons x xs)
  from Cons.prems obtain y where y: "f x = Inr y" "R x y" by auto
  from Cons obtain ys where ys: "map_throw f xs = Inr ys" "list_all2 R xs ys" by auto
  from y ys show ?case by simp
qed

lemma display_name_ok:
  assumes "fault st = None"
  shows "display_name st a =
     Inr (case find (\<lambda>u. JStr (email u) = a) (users st) of
            None \<Rightarrow> a
          | Some u \<Rightarrow> JStr (trim (full_name u)))"
  using assms by (simp add: display_name_def select_user_def first_row_find)

lemma obj_field [simp]:
  "opt_prop (JObj kvs) k = (case map_of kvs k of None \<Rightarrow> JUndefined | Some v \<Rightarrow> v)"
  by (simp add: opt_prop_def)

lemma analytics_report_ok:
  assumes "fault st = None"
  shows "\<exists>tops recents topPerformers recentActivity.
       top_performers_rows st = Inr tops
     \<and> recent_rows st = Inr recents
     \<and> list_all2 (\<lambda>row entry. top_performer st row = Inr entry) tops topPerformers
     \<and> list_all2 (\<lambda>row entry. recent_entry st row = Inr entry) recents recentActivity
     \<and> analytics_report st =
         Inr (JObj [(''totalDelegations'', JNum (int (length (delegations st)))),
                    (''completedDelegations'',
                       JNum (int (length (filter (has_status ''Completed'') (delegations st))))),
                    (''pendingDelegations'',
                       JNum (int (length (filter (has_status ''Pending'') (delegations st))))),
                    (''overdueDelegations'',
                       JNum (int (length (filter (has_status ''Overdue'') (delegations st))))),
                    (''topPerformers'', JArr topPerformers),
                    (''recentActivity'', JArr recentActivity)])"
proof -
  obtain tops where tops: "top_performers_rows st = Inr tops"
    using assms by (simp add: top_performers_rows_def)
  obtain recents where recents: "recent_rows st = Inr recents"
    using assms by (simp add: recent_rows_def)
  have "\<exists>y. top_performer st row = Inr y \<and> top_performer st row = Inr y" for row
    using assms by (simp add: top_performer_def display_name_ok)
  then obtain topPerformers where tp: "map_throw (top_performer st) tops = Inr topPerformers"
      "list_all2 (\<lambda>row entry. top_performer st row = Inr entry) tops topPerformers"
    using map_throw_all [of tops "top_performer st" "\<lambda>row entry. top_performer st row = Inr entry"]
    by blast
  have "\<exists>y. recent_entry st row = Inr y \<and> recent_entry st row = Inr y" for row
    using assms by (simp add: recent_entry_def display_name_ok)
  then obtain recentActivity where ra: "map_throw (recent_entry st) recents = Inr recentActivity"
      "list_all2 (\<lambda>row entry. recent_entry st row = Inr entry) recents recentActivity"
    using map_throw_all [of recents "recent_entry st" "\<lambda>row entry. recent_entry st row = Inr entry"]
    by blast
  have "analytics_report st =
         Inr (JObj [(''totalDelegations'', JNum (int (length (delegations st)))),
                    (''completedDelegations'',
                       JNum (int (length (filter (has_status ''Completed'') (delegations st))))),
                    (''pendingDelegations'',
                       JNum (int (length (filter (has_status ''Pending'') (delegations st))))),
                    (''overdueDelegations'',
                       JNum (int (length (filter (has_status ''Overdue'') (delegations st))))),
                    (''topPerformers'', JArr topPerformers),
                    (''recentActivity'', JArr recentActivity)])"
    using assms tops recents tp(1) ra(1) by (simp add: analytics_report_def count_where_ok)
  with tops recents tp(2) ra(2) show ?thesis by blast
qed

lemma trim_space: "trim '' '' = []"
  by (simp add: trim_def is_space_def)

lemma three_way_count:
  assumes "\<And>x. \<not> (P x \<and> Q x)" and "\<And>x. \<not> (P x \<and> R x)" and "\<And>x. \<not> (Q x \<and> R x)"
  shows "length (filter P xs) + length (filter Q xs) + length (filter R xs) \<le> length xs
       \<and> (length (filter P xs) + length (filter Q xs) + length (filter R xs) = length xs
            \<longleftrightarrow> (\<forall>x \<in> set xs. P x \<or> Q x \<or> R x))"
proof (induction xs)
  case Nil
  then show ?case by simp
next
  case (Cons x xs)
  then show ?case using assms [of x] by auto
qed

text \<open>
  Claim C8. On a store that answers, \<^verbatim>\<open>GET /analytics\<close> reports the number of delegation
  rows as the total and the numbers of rows whose status is \<^verbatim>\<open>Completed\<close>, \<^verbatim>\<open>Pending\<close>,
  \<^verbatim>\<open>Overdue\<close>; the three add up to at most the total, and to exactly the total if and only
  if every row has one of these three statuses (a row with \<^verbatim>\<open>In Progress\<close>, another string
  or NULL counts in the total only).
\<close>

theorem summary_counts:
  assumes "fault st = None"
  shows "\<exists>report total completed pending overdue.
       app E st h GetAnalytics = (json report, st)
     \<and> opt_prop report ''totalDelegations'' = JNum (int total)
     \<and> opt_prop report ''completedDelegations'' = JNum (int completed)
     \<and> opt_prop report ''pendingDelegations'' = JNum (int pending)
     \<and> opt_prop report ''overdueDelegations'' = JNum (int overdue)
     \<and> total = length (delegations st)
     \<and> completed = length (filter (has_status ''Completed'') (delegations st))
     \<and> pending = length (filter (has_status ''Pending'') (delegations st))
     \<and> overdue = length (filter (has_status ''Overdue'') (delegations st))
     \<and> completed + pending + overdue \<le> total
     \<and> (completed + pending + overdue = total \<longleftrightarrow>
          (\<forall>r \<in> set (delegations st).
             r Status = JStr ''Completed'' \<or> r Status = JStr ''Pending''
           \<or> r Status = JStr ''Overdue''))"
proof -
  from analytics_report_ok [OF assms] obtain topPerformers recentActivity where
    report: "analytics_report st =
         Inr (JObj [(''totalDelegations'', JNum (int (length (delegations st)))),
                    (''completedDelegations'',
                       JNum (int (length (filter (has_status ''Completed'') (delegations st))))),
                    (''pendingDelegations'',
                       JNum (int (length (filter (has_status ''Pending'') (delegations st))))),
                    (''overdueDelegations'',
                       JNum (int (length (filter (has_status ''Overdue'') (delegations st))))),
                    (''topPerformers'', JArr topPerformers),
                    (''recentActivity'', JArr recentActivity)])"
    by blast
  have counts: "length (filter (has_status ''Completed'') (delegations st))
        + length (filter (has_status ''Pending'') (delegations st))
        + length (filter (has_status ''Overdue'') (delegations st)) \<le> length (delegations st)
      \<and> (length (filter (has_status ''Completed'') (delegations st))
        + length (filter (has_status ''Pending'') (delegations st))
        + length (filter (has_status ''Overdue'') (delegations st)) = length (delegations st)
          \<longleftrightarrow> (\<forall>r \<in> set (delegations st).
                 has_status ''Completed'' r \<or> has_status ''Pending'' r \<or> has_status ''Overdue'' r))"
    by (rule three_way_count) (simp_all add: has_status_def)
  show ?thesis
    apply (rule exI [of _ "JObj [(''totalDelegations'', JNum (int (length (delegations st)))),
                    (''completedDelegations'',
                       JNum (int (length (filter (has_status ''Completed'') (delegations st))))),
                    (''pendingDelegations'',
                       JNum (int (length (filter (has_status ''Pending'') (delegations st))))),
                    (''overdueDelegations'',
                       JNum (int (length (filter (has_status ''Overdue'') (delegations st))))),
                    (''topPerformers'', JArr topPerformers),
                    (''recentActivity'', JArr recentActivity)]"])
    apply (rule exI [of _ "length (delegations st)"])
    apply (rule exI [of _ "length (filter (has_status ''Completed'') (delegations st))"])
    apply (rule exI [of _ "length (filter (has_status ''Pending'') (delegations st))"])
    apply (rule exI [of _ "length (filter (has_status ''Overdue'') (delegations st))"])
    using report counts
    apply (simp add: get_analytics_def has_status_def)
    done
qed

text \<open>
  On the fixtures: with one \<^verbatim>\<open>In Progress\<close> row among three the report is 3, 2, 0, 0; with
  one row of each counted status it is 3, 1, 1, 1.
\<close>

theorem summary_counts_witness:
  "(\<exists>report. app example_env example_store None GetAnalytics = (json report, example_store)
      \<and> opt_prop report ''totalDelegations'' = JNum 3
      \<and> opt_prop report ''completedDelegations'' = JNum 2
      \<and> opt_prop report ''pendingDelegations'' = JNum 0
      \<and> opt_prop report ''overdueDelegations'' = JNum 0)
   \<and> (\<exists>report. app example_env tidy_store None GetAnalytics = (json report, tidy_store)
      \<and> opt_prop report ''totalDelegations'' = JNum 3
      \<and> opt_prop report ''completedDelegations'' = JNum 1
      \<and> opt_prop report ''pendingDelegations'' = JNum 1
      \<and> opt_prop report ''overdueDelegations'' = JNum 1)"
proof
  have nofault: "fault example_store = None"
    by (simp add: example_store_def)
  have rows: "length (delegations example_store) = 3"
      "length (filter (has_status ''Completed'') (delegations example_store)) = 2"
      "length (filter (has_status ''Pending'') (delegations example_store)) = 0"
      "length (filter (has_status ''Overdue'') (delegations example_store)) = 0"
    by (simp_all add: example_store_def example_row_def has_status_def)
  from summary_counts [OF nofault, of example_env None] rows
  show "\<exists>report. app example_env example_store None GetAnalytics = (json report, example_store)
      \<and> opt_prop report ''totalDelegations'' = JNum 3
      \<and> opt_prop report ''completedDelegations'' = JNum 2
      \<and> opt_prop report ''pendingDelegations'' = JNum 0
      \<and> opt_prop report ''overdueDelegations'' = JNum 0"
    by (elim exE conjE) (rule exI, simp del: app.simps obj_field)
next
  have nofault: "fault tidy_store = None"
    by (simp add: tidy_store_def)
  have rows: "length (delegations tidy_store) = 3"
      "length (filter (has_status ''Completed'') (delegations tidy_store)) = 1"
      "length (filter (has_status ''Pending'') (delegations tidy_store)) = 1"
      "length (filter (has_status ''Overdue'') (delegations tidy_store)) = 1"
    by (simp_all add: tidy_store_def example_row_def has_status_def)
  from summary_counts [OF nofault, of example_env None] rows
  show "\<exists>report. app example_env tidy_store None GetAnalytics = (json report, tidy_store)
      \<and> opt_prop report ''totalDelegations'' = JNum 3
      \<and> opt_prop report ''completedDelegations'' = JNum 1
      \<and> opt_prop report ''pendingDelegations'' = JNum 1
      \<and> opt_prop report ''overdueDelegations'' = JNum 1"
    by (elim exE conjE) (rule exI, simp del: app.simps obj_field)
qed

section \<open>Number arithmetic and exact rounding\<close>

lemma round_half_even_near: "\<bar>of_int (round_half_even y) - y\<bar> \<le> 1 / 2"
proof -
  have "0 \<le> y - of_int \<lfloor>y\<rfloor>" and "y - of_int \<lfloor>y\<rfloor> < 1"
    by linarith+
  then show ?thesis
    by (auto simp: round_half_even_def abs_le_iff)
qed

lemma floor_log2_lower:
  assumes "0 < x"
  shows "2 powi (floor_log2 x) \<le> x"
proof (cases "1 \<le> x")
  case True
  then have pos: "0 < nat \<lfloor>x\<rfloor>" by simp
  then have one: "1 \<le> floorlog 2 (nat \<lfloor>x\<rfloor>)"
    by (simp add: Suc_le_eq floorlog_eq_zero_iff [THEN iffD1, THEN contrapos_pp] zero_less_iff_neq_zero
        floorlog_eq_zero_iff)
  from floorlog_bounds [OF pos, of 2]
  have "(2::nat) ^ (floorlog 2 (nat \<lfloor>x\<rfloor>) - 1) \<le> nat \<lfloor>x\<rfloor>" by simp
  then have "(of_nat ((2::nat) ^ (floorlog 2 (nat \<lfloor>x\<rfloor>) - 1)) :: rat) \<le> of_nat (nat \<lfloor>x\<rfloor>)"
    by (simp only: of_nat_le_iff)
  also have "(of_nat (nat \<lfloor>x\<rfloor>) :: rat) = of_int \<lfloor>x\<rfloor>"
    using True by simp
  also have "\<dots> \<le> x" by simp
  finally have "(2::rat) ^ (floorlog 2 (nat \<lfloor>x\<rfloor>) - 1) \<le> x" by simp
  moreover have "floor_log2 x = int (floorlog 2 (nat \<lfloor>x\<rfloor>) - 1)"
    using True one by (simp add: floor_log2_def)
  ultimately show ?thesis by simp
next
  case False
  with assms have inv: "1 < 1 / x" by simp
  then have "2 \<le> \<lceil>1 / x\<rceil>" by linarith
  then have pos: "0 < nat (\<lceil>1 / x\<rceil> - 1)" by simp
  from floorlog_bounds [OF pos, of 2]
  have "nat (\<lceil>1 / x\<rceil> - 1) < 2 ^ floorlog 2 (nat (\<lceil>1 / x\<rceil> - 1))" by simp
  then have "\<lceil>1 / x\<rceil> - 1 < 2 ^ floorlog 2 (nat (\<lceil>1 / x\<rceil> - 1))"
    using pos by (simp add: nat_less_iff)
  then have "\<lceil>1 / x\<rceil> \<le> 2 ^ floorlog 2 (nat (\<lceil>1 / x\<rceil> - 1))" by simp
  then have "1 / x \<le> of_int (2 ^ floorlog 2 (nat (\<lceil>1 / x\<rceil> - 1)))"
    by (simp only: ceiling_le_iff)
  then have "1 / x \<le> 2 ^ floorlog 2 (nat (\<lceil>1 / x\<rceil> - 1))" by simp
  with assms have "1 / 2 ^ floorlog 2 (nat (\<lceil>1 / x\<rceil> - 1)) \<le> x"
    by (simp add: field_simps)
  moreover have "floor_log2 x = - int (floorlog 2 (nat (\<lceil>1 / x\<rceil> - 1)))"
    using False by (simp add: floor_log2_def)
  ultimately show ?thesis
    by (simp add: power_int_minus_divide)
qed

lemma fl_near:
  assumes "0 < x"
  shows "\<bar>fl x - x\<bar> \<le> x / 2 ^ 53"
proof -
  define u :: rat where "u = 2 powi (floor_log2 x - 52)"
  have u: "0 < u" by (simp add: u_def)
  have "fl x = of_int (round_half_even (x / u)) * u"
    using assms by (simp add: fl_def u_def)
  then have "fl x - x = (of_int (round_half_even (x / u)) - x / u) * u"
    using u by (simp add: field_simps)
  then have "\<bar>fl x - x\<bar> = \<bar>of_int (round_half_even (x / u)) - x / u\<bar> * u"
    using u by (simp add: abs_mult)
  also have "\<dots> \<le> 1 / 2 * u"
    using round_half_even_near [of "x / u"] u by (intro mult_right_mono) simp_all
  also have "1 / 2 * u = 2 powi (floor_log2 x) / 2 ^ 53"
    by (simp add: u_def power_int_diff)
  also have "\<dots> \<le> x / 2 ^ 53"
    using floor_log2_lower [OF assms] by (simp add: divide_right_mono)
  finally show ?thesis .
qed

lemma fl_zero: "fl 0 = 0"
  by (simp add: fl_def)

text \<open>The double product is within \<open>201 / 2 ^ 53\<close> of the exact percentage.\<close>

lemma percentage_near:
  assumes "0 < a" and "c \<le> a"
  shows "\<bar>js_mul (js_div (of_nat c) (of_nat a)) 100 - 100 * of_nat c / of_nat a\<bar> \<le> 201 / 2 ^ 53"
proof (cases "c = 0")
  case True
  then show ?thesis by (simp add: js_mul_def js_div_def fl_zero)
next
  case False
  define q :: rat where "q = of_nat c / of_nat a"
  define d where "d = fl q"
  have q: "0 < q" "q \<le> 1"
    using assms False by (simp_all add: q_def)
  have dq: "\<bar>d - q\<bar> \<le> q / 2 ^ 53"
    unfolding d_def using q(1) by (rule fl_near)
  have "q / 2 ^ 53 < q"
    using q(1) by (simp add: field_simps)
  with dq have d: "0 < d" by linarith
  have d_le: "d \<le> q + q / 2 ^ 53"
    using dq by linarith
  have "\<bar>fl (d * 100) - d * 100\<bar> \<le> d * 100 / 2 ^ 53"
    using d by (intro fl_near) simp
  also have "\<dots> \<le> (q + q / 2 ^ 53) * 100 / 2 ^ 53"
    using d_le by (simp add: divide_right_mono)
  finally have step2: "\<bar>fl (d * 100) - d * 100\<bar> \<le> (q + q / 2 ^ 53) * 100 / 2 ^ 53" .
  have "fl (d * 100) - 100 * q = (fl (d * 100) - d * 100) + 100 * (d - q)"
    by (simp add: algebra_simps)
  then have "\<bar>fl (d * 100) - 100 * q\<bar> \<le> \<bar>fl (d * 100) - d * 100\<bar> + \<bar>100 * (d - q)\<bar>"
    by (simp only: abs_triangle_ineq)
  moreover have "\<bar>100 * (d - q)\<bar> = 100 * \<bar>d - q\<bar>"
    by (subst abs_mult) simp
  ultimately have "\<bar>fl (d * 100) - 100 * q\<bar> \<le> \<bar>fl (d * 100) - d * 100\<bar> + 100 * \<bar>d - q\<bar>"
    by (simp only:)
  also have "\<dots> \<le> (q + q / 2 ^ 53) * 100 / 2 ^ 53 + 100 * (q / 2 ^ 53)"
    using step2 dq by (intro add_mono mult_left_mono) simp_all
  also have "\<dots> = q * (100 * (2 + 1 / 2 ^ 53) / 2 ^ 53)"
    by (simp add: field_simps)
  also have "\<dots> \<le> 1 * (100 * (2 + 1 / 2 ^ 53) / 2 ^ 53)"
    using q(2) by (intro mult_right_mono) simp_all
  also have "\<dots> \<le> 201 / 2 ^ 53"
    by simp
  finally show ?thesis
    by (simp add: js_mul_def js_div_def d_def q_def)
qed

lemma exact_round:
  assumes "0 < a"
  shows "math_round (100 * of_nat c / of_nat a) = int ((200 * c + a) div (2 * a))"
proof -
  have "(100 * of_nat c / of_nat a + 1 / 2 :: rat) = of_int (int (200 * c + a)) / of_int (int (2 * a))"
    using assms by (simp add: field_simps)
  then have "math_round (100 * of_nat c / of_nat a) = \<lfloor>(of_int (int (200 * c + a)) / of_int (int (2 * a)) :: rat)\<rfloor>"
    by (simp only: math_round_def)
  also have "\<dots> = int (200 * c + a) div int (2 * a)"
    by (simp only: floor_divide_of_int_eq)
  also have "\<dots> = int ((200 * c + a) div (2 * a))"
    by (simp only: zdiv_int)
  finally show ?thesis .
qed

lemma score_near_exact:
  assumes "0 < a" and "c \<le> a" and "a \<le> 2 ^ 44"
  shows "((200 * c + a) mod (2 * a) \<noteq> 0 \<longrightarrow>
            performanceScore a c = int ((200 * c + a) div (2 * a)))
       \<and> (performanceScore a c = int ((200 * c + a) div (2 * a))
            \<or> performanceScore a c = int ((200 * c + a) div (2 * a)) - 1)"
proof -
  define y where "y = js_mul (js_div (of_nat c) (of_nat a)) 100"
  define k where "k = (200 * c + a) div (2 * a)"
  define r where "r = (200 * c + a) mod (2 * a)"
  have score: "performanceScore a c = \<lfloor>y + 1 / 2\<rfloor>"
    using assms(1) by (simp add: performanceScore_def math_round_def y_def)
  have split: "200 * c + a = k * (2 * a) + r"
    unfolding k_def r_def by (rule div_mult_mod_eq [symmetric])
  have r: "r < 2 * a"
    using assms(1) by (simp add: r_def)
  have near: "\<bar>y - 100 * of_nat c / of_nat a\<bar> \<le> 201 / 2 ^ 53"
    unfolding y_def using assms(1,2) by (rule percentage_near)
  have "(of_nat (200 * c + a) :: rat) = of_nat (k * (2 * a) + r)"
    by (simp only: split)
  then have z: "(100 * of_nat c / of_nat a + 1 / 2 :: rat) = of_nat k + of_nat r / (2 * of_nat a)"
    using assms(1) by (simp add: field_simps)
  have "(of_nat a :: rat) \<le> of_nat (2 ^ 44)"
    using assms(3) by (simp only: of_nat_le_iff)
  then have a44: "(of_nat a :: rat) \<le> 2 ^ 44" by simp
  have apos: "(0 :: rat) < of_nat a" using assms(1) by simp
  have eps: "(201 / 2 ^ 53 :: rat) < 1 / (2 * of_nat a)"
  proof -
    have "(201 / 2 ^ 53 :: rat) < 1 / (2 * 2 ^ 44)" by simp
    also have "\<dots> \<le> 1 / (2 * of_nat a)"
      using a44 apos by (intro divide_left_mono) simp_all
    finally show ?thesis .
  qed
  have half: "(1 / (2 * of_nat a) :: rat) \<le> 1 / 2"
    using assms(1) by (simp add: field_simps)
  have rfrac: "(of_nat r / (2 * of_nat a) :: rat) \<le> 1 - 1 / (2 * of_nat a)"
  proof -
    from r have "r + 1 \<le> 2 * a" by simp
    then have "(of_nat (r + 1) :: rat) \<le> of_nat (2 * a)" by (simp only: of_nat_le_iff)
    then show ?thesis using apos by (simp add: field_simps)
  qed
  have exact: "performanceScore a c = int k" if "r \<noteq> 0"
  proof -
    from that have "1 \<le> r" by simp
    then have "(1 :: rat) \<le> of_nat r" by simp
    then have lo: "(1 / (2 * of_nat a) :: rat) \<le> of_nat r / (2 * of_nat a)"
      using apos by (simp add: divide_right_mono)
    have "of_nat k < y + 1 / 2" and "y + 1 / 2 < of_nat k + 1"
      using near z eps lo rfrac by linarith+
    then have "\<lfloor>y + 1 / 2\<rfloor> = int k"
      by (intro floor_unique) simp_all
    with score show ?thesis by simp
  qed
  have close: "performanceScore a c = int k \<or> performanceScore a c = int k - 1"
  proof (cases "r = 0")
    case False
    with exact show ?thesis by simp
  next
    case True
    with z have "(100 * of_nat c / of_nat a + 1 / 2 :: rat) = of_nat k" by simp
    with near eps half have "of_nat k - 1 < y + 1 / 2" and "y + 1 / 2 < of_nat k + 1"
      by linarith+
    then have "of_int (int k - 1) \<le> y + 1 / 2" and "y + 1 / 2 < of_int (int k + 1)"
      by simp_all
    then have "int k - 1 \<le> \<lfloor>y + 1 / 2\<rfloor>" and "\<lfloor>y + 1 / 2\<rfloor> < int k + 1"
      by (simp_all only: le_floor_iff floor_less_iff)
    with score show ?thesis by linarith
  qed
  from exact close show ?thesis
    by (simp add: k_def r_def)
qed

section \<open>The team report\<close>

lemma team_member_ok:
  assumes "fault st = None"
  shows "\<exists>entry. team_member st u = Inr entry
     \<and> opt_prop entry ''email'' = JStr (email u)
     \<and> opt_prop entry ''status'' = JStr ''Active''
     \<and> opt_prop entry ''tasksAssigned''
          = JNum (int (length (filter (assigned (email u)) (delegations st))))
     \<and> opt_prop entry ''tasksCompleted''
          = JNum (int (length (filter (\<lambda>r. assigned (email u) r \<and> has_status ''Completed'' r)
                                 (delegations st))))
     \<and> opt_prop entry ''performanceScore''
          = JNum (performanceScore
               (length (filter (assigned (email u)) (delegations st)))
               (length (filter (\<lambda>r. assigned (email u) r \<and> has_status ''Completed'' r)
                          (delegations st))))"
  using assms by (simp add: team_member_def count_where_ok)

lemma team_report_ok:
  assumes "fault st = None"
  shows "\<exists>entries. get_team st = json (JArr entries)
     \<and> length entries = length (users st)
     \<and> (\<forall>i < length (users st). team_member st (users st ! i) = Inr (entries ! i))"
proof -
  have "\<exists>y. team_member st u = Inr y \<and> team_member st u = Inr y" for u
    using team_member_ok [OF assms, of u] by blast
  then obtain entries where run: "map_throw (team_member st) (users st) = Inr entries"
    and each: "list_all2 (\<lambda>u entry. team_member st u = Inr entry) (users st) entries"
    using map_throw_all [of "users st" "team_member st" "\<lambda>u entry. team_member st u = Inr entry"]
    by blast
  from run assms have "get_team st = json (JArr entries)"
    by (simp add: get_team_def team_report_def select_users_def)
  with each show ?thesis
    by (auto simp: list_all2_conv_all_nth)
qed

text \<open>
  Claim C10. On a store that answers, \<^verbatim>\<open>GET /team\<close> has one entry per user row, in the
  table's order, and the \<^verbatim>\<open>status\<close> of every entry is the string \<^verbatim>\<open>Active\<close>, whatever the
  user row and the delegations hold.
\<close>

theorem team_status_is_active:
  assumes "fault st = None"
  shows "\<exists>entries. app E st h GetTeam = (json (JArr entries), st)
     \<and> length entries = length (users st)
     \<and> (\<forall>i < length (users st).
           opt_prop (entries ! i) ''email'' = JStr (email (users st ! i))
         \<and> opt_prop (entries ! i) ''status'' = JStr ''Active'')"
proof -
  from team_report_ok [OF assms] obtain entries where
    report: "get_team st = json (JArr entries)" "length entries = length (users st)"
    and each: "\<forall>i < length (users st). team_member st (users st ! i) = Inr (entries ! i)"
    by blast
  have "opt_prop (entries ! i) ''email'' = JStr (email (users st ! i))
      \<and> opt_prop (entries ! i) ''status'' = JStr ''Active''" if "i < length (users st)" for i
    using team_member_ok [OF assms, of "users st ! i"] each that by auto
  with report show ?thesis by auto
qed

text \<open>On the fixture: two entries, Ann's and Bob's, both \<^verbatim>\<open>Active\<close>.\<close>

theorem team_status_is_active_witness:
  "\<exists>a b. app example_env example_store None GetTeam = (json (JArr [a, b]), example_store)
     \<and> opt_prop a ''email'' = JStr ''a@x.com'' \<and> opt_prop a ''status'' = JStr ''Active''
     \<and> opt_prop b ''email'' = JStr ''b@x.com'' \<and> opt_prop b ''status'' = JStr ''Active''"
proof -
  have nofault: "fault example_store = None" and users: "users example_store = [ann, bob]"
    by (simp_all add: example_store_def)
  from team_status_is_active [OF nofault, of example_env None] obtain entries where
    run: "app example_env example_store None GetTeam = (json (JArr entries), example_store)"
    and len: "length entries = length (users example_store)"
    and each: "\<forall>i < length (users example_store).
           opt_prop (entries ! i) ''email'' = JStr (email (users example_store ! i))
         \<and> opt_prop (entries ! i) ''status'' = JStr ''Active''"
    by blast
  from len users obtain a b where entries: "entries = [a, b]"
    by (cases entries; cases "tl entries") auto
  from each [rule_format, of 0] each [rule_format, of 1] entries users
  have "opt_prop a ''email'' = JStr ''a@x.com'' \<and> opt_prop a ''status'' = JStr ''Active''
      \<and> opt_prop b ''email'' = JStr ''b@x.com'' \<and> opt_prop b ''status'' = JStr ''Active''"
    by (simp add: ann_def bob_def)
  with run entries show ?thesis by blast
qed

lemma completed_le_assigned:
  "length (filter (\<lambda>r. P r \<and> Q r) xs) \<le> length (filter P xs)"
  by (induction xs) auto

text \<open>
  Claim C7, as the code has it. On a store that answers, the \<^verbatim>\<open>performanceScore\<close> of every
  entry of \<^verbatim>\<open>GET /team\<close> is, with \<open>a\<close> the number of delegations assigned to the user's
  email and \<open>c\<close> the number of those whose status is \<^verbatim>\<open>Completed\<close> (both reported in the
  entry), \<^verbatim>\<open>Math.round((c / a) * 100)\<close> in the arithmetic of JavaScript numbers when
  \<open>a > 0\<close>, and 0 when \<open>a = 0\<close>. With 2 assigned and 1 completed it is 50. For up to
  \<open>2 ^ 44\<close> assigned delegations it is the exact percentage \<open>100 c / a\<close> rounded to the
  nearest integer whenever that percentage is not half-way between two integers, and at a
  half-way percentage it is the upper or the lower of the two.
\<close>

theorem team_performance_score:
  assumes "fault st = None"
  shows "(\<exists>entries. app E st h GetTeam = (json (JArr entries), st)
     \<and> length entries = length (users st)
     \<and> (\<forall>i < length (users st). \<exists>a c.
           a = length (filter (assigned (email (users st ! i))) (delegations st))
         \<and> c = length (filter (\<lambda>r. assigned (email (users st ! i)) r \<and> has_status ''Completed'' r)
                        (delegations st))
         \<and> opt_prop (entries ! i) ''tasksAssigned'' = JNum (int a)
         \<and> opt_prop (entries ! i) ''tasksCompleted'' = JNum (int c)
         \<and> opt_prop (entries ! i) ''performanceScore''
              = JNum (if a > 0 then math_round (js_mul (js_div (of_nat c) (of_nat a)) 100) else 0)
         \<and> (a = 0 \<longrightarrow> opt_prop (entries ! i) ''performanceScore'' = JNum 0)
         \<and> (a = 2 \<and> c = 1 \<longrightarrow> opt_prop (entries ! i) ''performanceScore'' = JNum 50)
         \<and> (0 < a \<and> a \<le> 2 ^ 44 \<and> (200 * c + a) mod (2 * a) \<noteq> 0 \<longrightarrow>
               opt_prop (entries ! i) ''performanceScore''
                 = JNum (math_round (100 * of_nat c / of_nat a)))
         \<and> (0 < a \<and> a \<le> 2 ^ 44 \<longrightarrow>
               opt_prop (entries ! i) ''performanceScore''
                 = JNum (math_round (100 * of_nat c / of_nat a))
             \<or> opt_prop (entries ! i) ''performanceScore''
                 = JNum (math_round (100 * of_nat c / of_nat a) - 1))))"
proof -
  have fifty: "performanceScore 2 1 = 50"
    by code_simp
  from team_report_ok [OF assms] obtain entries where
    report: "get_team st = json (JArr entries)" "length entries = length (users st)"
    and each: "\<forall>i < length (users st). team_member st (users st ! i) = Inr (entries ! i)"
    by blast
  have "\<exists>a c.
           a = length (filter (assigned (email (users st ! i))) (delegations st))
         \<and> c = length (filter (\<lambda>r. assigned (email (users st ! i)) r \<and> has_status ''Completed'' r)
                        (delegations st))
         \<and> opt_prop (entries ! i) ''tasksAssigned'' = JNum (int a)
         \<and> opt_prop (entries ! i) ''tasksCompleted'' = JNum (int c)
         \<and> opt_prop (entries ! i) ''performanceScore''
              = JNum (if a > 0 then math_round (js_mul (js_div (of_nat c) (of_nat a)) 100) else 0)
         \<and> (a = 0 \<longrightarrow> opt_prop (entries ! i) ''performanceScore'' = JNum 0)
         \<and> (a = 2 \<and> c = 1 \<longrightarrow> opt_prop (entries ! i) ''performanceScore'' = JNum 50)
         \<and> (0 < a \<and> a \<le> 2 ^ 44 \<and> (200 * c + a) mod (2 * a) \<noteq> 0 \<longrightarrow>
               opt_prop (entries ! i) ''performanceScore''
                 = JNum (math_round (100 * of_nat c / of_nat a)))
         \<and> (0 < a \<and> a \<le> 2 ^ 44 \<longrightarrow>
               opt_prop (entries ! i) ''performanceScore''
                 = JNum (math_round (100 * of_nat c / of_nat a))
             \<or> opt_prop (entries ! i) ''performanceScore''
                 = JNum (math_round (100 * of_nat c / of_nat a) - 1))"
    if "i < length (users st)" for i
  proof -
    define a where "a = length (filter (assigned (email (users st ! i))) (delegations st))"
    define c where "c = length (filter (\<lambda>r. assigned (email (users st ! i)) r
                                            \<and> has_status ''Completed'' r) (delegations st))"
    have le: "c \<le> a"
      unfolding a_def c_def by (rule completed_le_assigned)
    from team_member_ok [OF assms, of "users st ! i"] each that
    have fields: "opt_prop (entries ! i) ''tasksAssigned'' = JNum (int a)"
      "opt_prop (entries ! i) ''tasksCompleted'' = JNum (int c)"
      "opt_prop (entries ! i) ''performanceScore'' = JNum (performanceScore a c)"
      unfolding a_def c_def by auto
    have formula: "performanceScore a c
        = (if a > 0 then math_round (js_mul (js_div (of_nat c) (of_nat a)) 100) else 0)"
      by (simp add: performanceScore_def)
    have zero: "a = 0 \<longrightarrow> performanceScore a c = 0"
      by (simp add: performanceScore_def)
    have two: "a = 2 \<and> c = 1 \<longrightarrow> performanceScore a c = 50"
      using fifty by auto
    have exact: "0 < a \<and> a \<le> 2 ^ 44 \<and> (200 * c + a) mod (2 * a) \<noteq> 0 \<longrightarrow>
        performanceScore a c = math_round (100 * of_nat c / of_nat a)"
      using score_near_exact [OF _ le, of] exact_round [of a c] by auto
    have close: "0 < a \<and> a \<le> 2 ^ 44 \<longrightarrow>
        performanceScore a c = math_round (100 * of_nat c / of_nat a)
      \<or> performanceScore a c = math_round (100 * of_nat c / of_nat a) - 1"
      using score_near_exact [OF _ le, of] exact_round [of a c] by auto
    show ?thesis
      apply (rule exI [of _ a])
      apply (rule exI [of _ c])
      using fields formula zero two exact close
      apply (simp only: a_def [symmetric] c_def [symmetric])
      apply simp
      done
  qed
  moreover have "app E st h GetTeam = (json (JArr entries), st)"
    using report by simp
  ultimately show ?thesis
    using report(2) by blast
qed

text \<open>
  On the fixture: Ann has two delegations, one of them completed, and scores 50; Bob has
  none and scores 0.
\<close>

theorem team_performance_score_witness:
  "\<exists>a b. app example_env example_store None GetTeam = (json (JArr [a, b]), example_store)
     \<and> opt_prop a ''tasksAssigned'' = JNum 2 \<and> opt_prop a ''tasksCompleted'' = JNum 1
     \<and> opt_prop a ''performanceScore'' = JNum 50
     \<and> opt_prop b ''tasksAssigned'' = JNum 0 \<and> opt_prop b ''performanceScore'' = JNum 0"
proof -
  have nofault: "fault example_store = None" and users: "users example_store = [ann, bob]"
    by (simp_all add: example_store_def)
  have counts:
    "length (filter (assigned ''a@x.com'') (delegations example_store)) = 2"
    "length (filter (\<lambda>r. assigned ''a@x.com'' r \<and> has_status ''Completed'' r)
               (delegations example_store)) = 1"
    "length (filter (assigned ''b@x.com'') (delegations example_store)) = 0"
    by (simp_all add: example_store_def example_row_def assigned_def has_status_def)
  from team_performance_score [OF nofault, of example_env None] obtain entries where
    run: "app example_env example_store None GetTeam = (json (JArr entries), example_store)"
    and len: "length entries = length (users example_store)"
    and each: "\<forall>i < length (users example_store). \<exists>a c.
           a = length (filter (assigned (email (users example_store ! i))) (delegations example_store))
         \<and> c = length (filter (\<lambda>r. assigned (email (users example_store ! i)) r
                                    \<and> has_status ''Completed'' r) (delegations example_store))
         \<and> opt_prop (entries ! i) ''tasksAssigned'' = JNum (int a)
         \<and> opt_prop (entries ! i) ''tasksCompleted'' = JNum (int c)
         \<and> opt_prop (entries ! i) ''performanceScore''
              = JNum (if a > 0 then math_round (js_mul (js_div (of_nat c) (of_nat a)) 100) else 0)
         \<and> (a = 0 \<longrightarrow> opt_prop (entries ! i) ''performanceScore'' = JNum 0)
         \<and> (a = 2 \<and> c = 1 \<longrightarrow> opt_prop (entries ! i) ''performanceScore'' = JNum 50)
         \<and> (0 < a \<and> a \<le> 2 ^ 44 \<and> (200 * c + a) mod (2 * a) \<noteq> 0 \<longrightarrow>
               opt_prop (entries ! i) ''performanceScore''
                 = JNum (math_round (100 * of_nat c / of_nat a)))
         \<and> (0 < a \<and> a \<le> 2 ^ 44 \<longrightarrow>
               opt_prop (entries ! i) ''performanceScore''
                 = JNum (math_round (100 * of_nat c / of_nat a))
             \<or> opt_prop (entries ! i) ''performanceScore''
                 = JNum (math_round (100 * of_nat c / of_nat a) - 1))"
    by blast
  from len users obtain a b where entries: "entries = [a, b]"
    by (cases entries; cases "tl entries") auto
  have first: "users example_store ! 0 = ann" "email ann = ''a@x.com''"
    and second: "users example_store ! 1 = bob" "email bob = ''b@x.com''"
    by (simp_all add: users ann_def bob_def)
  have "0 < length (users example_store)" and "1 < length (users example_store)"
    by (simp_all add: users)
  with each obtain x c where
    "x = length (filter (assigned (email (users example_store ! 0))) (delegations example_store))"
    "c = length (filter (\<lambda>r. assigned (email (users example_store ! 0)) r
                               \<and> has_status ''Completed'' r) (delegations example_store))"
    and shown: "opt_prop (entries ! 0) ''tasksAssigned'' = JNum (int x)"
      "opt_prop (entries ! 0) ''tasksCompleted'' = JNum (int c)"
      "x = 2 \<and> c = 1 \<longrightarrow> opt_prop (entries ! 0) ''performanceScore'' = JNum 50"
    by blast
  then have "x = 2" and "c = 1"
    using counts first by simp_all
  with shown entries
  have ann: "opt_prop a ''tasksAssigned'' = JNum 2 \<and> opt_prop a ''tasksCompleted'' = JNum 1
     \<and> opt_prop a ''performanceScore'' = JNum 50"
    by simp
  from each \<open>1 < length (users example_store)\<close> obtain y where
    "y = length (filter (assigned (email (users example_store ! 1))) (delegations example_store))"
    and shown: "opt_prop (entries ! 1) ''tasksAssigned'' = JNum (int y)"
      "y = 0 \<longrightarrow> opt_prop (entries ! 1) ''performanceScore'' = JNum 0"
    by blast
  then have "y = 0"
    using counts second by simp
  with shown entries
  have bob: "opt_prop b ''tasksAssigned'' = JNum 0 \<and> opt_prop b ''performanceScore'' = JNum 0"
    by simp
  from run entries ann bob show ?thesis by blast
qed

text \<open>
  Claim C7 as the specification words it fails when the percentage is read exactly. Ann has
  40 delegations, 23 of them completed: the exact percentage is 57.5, which rounds to 58.
  In doubles \<^verbatim>\<open>23 / 40\<close> is a little below 0.575 and \<^verbatim>\<open>(23 / 40) * 100\<close> evaluates to
  \<^verbatim>\<open>57.49999999999999\<close>, so \<^verbatim>\<open>Math.round\<close> gives 57, and that is the score in the report.
\<close>

theorem half_way_percentage_counterexample:
  "app example_env busy_store None GetTeam =
     (json (JArr [JObj [(''id'', JStr ''a@x.com''), (''name'', JStr ''a@x.com''),
        (''email'', JStr ''a@x.com''), (''role'', JNull), (''department'', JNull),
        (''phone'', JNull), (''status'', JStr ''Active''), (''tasksAssigned'', JNum 40),
        (''tasksCompleted'', JNum 23), (''tasksInProgress'', JNum 0),
        (''tasksPending'', JNum 17), (''tasksOverdue'', JNum 0),
        (''performanceScore'', JNum 57)]]), busy_store)
   \<and> math_round (100 * 23 / 40) = 58
   \<and> js_mul (js_div 23 40) 100 = 8092405580431359 / 140737488355328
   \<and> (8092405580431359 / 140737488355328 :: rat) < 115 / 2"
proof -
  have nofault: "fault busy_store = None" and users: "users busy_store = [ann]"
    by (simp_all add: busy_store_def)
  have lens:
    "length (filter (assigned ''a@x.com'') (delegations busy_store)) = 40"
    "length (filter (\<lambda>r. assigned ''a@x.com'' r \<and> has_status ''Completed'' r)
               (delegations busy_store)) = 23"
    "length (filter (\<lambda>r. assigned ''a@x.com'' r \<and> has_status ''In Progress'' r)
               (delegations busy_store)) = 0"
    "length (filter (\<lambda>r. assigned ''a@x.com'' r \<and> has_status ''Pending'' r)
               (delegations busy_store)) = 17"
    "length (filter (\<lambda>r. assigned ''a@x.com'' r \<and> has_status ''Overdue'' r)
               (delegations busy_store)) = 0"
    by code_simp+
  have counts:
    "count_where busy_store (assigned ''a@x.com'') = Inr 40"
    "count_where busy_store (\<lambda>r. assigned ''a@x.com'' r \<and> has_status ''Completed'' r) = Inr 23"
    "count_where busy_store (\<lambda>r. assigned ''a@x.com'' r \<and> has_status ''In Progress'' r) = Inr 0"
    "count_where busy_store (\<lambda>r. assigned ''a@x.com'' r \<and> has_status ''Pending'' r) = Inr 17"
    "count_where busy_store (\<lambda>r. assigned ''a@x.com'' r \<and> has_status ''Overdue'' r) = Inr 0"
    by (simp_all only: count_where_ok [OF nofault] lens)
  have score: "performanceScore 40 23 = 57"
    by code_simp
  have product: "js_mul (js_div 23 40) 100 = 8092405580431359 / 140737488355328"
    by code_simp
  have exact: "math_round (100 * 23 / 40) = 58"
    by (simp add: math_round_def)
  have name: "team_name ann = ''a@x.com''" and ann: "email ann = ''a@x.com''"
    "role ann = None" "department ann = None" "phone ann = None"
    by (simp_all add: team_name_def full_name_def ann_def or_empty_def trim_space)
  have member: "team_member busy_store ann =
      Inr (JObj [(''id'', JStr ''a@x.com''), (''name'', JStr ''a@x.com''),
        (''email'', JStr ''a@x.com''), (''role'', JNull), (''department'', JNull),
        (''phone'', JNull), (''status'', JStr ''Active''), (''tasksAssigned'', JNum 40),
        (''tasksCompleted'', JNum 23), (''tasksInProgress'', JNum 0),
        (''tasksPending'', JNum 17), (''tasksOverdue'', JNum 0),
        (''performanceScore'', JNum 57)])"
    unfolding team_member_def ann counts and_then_simps name score
    by (simp add: opt_str_def)
  have "get_team busy_store =
      json (JArr [JObj [(''id'', JStr ''a@x.com''), (''name'', JStr ''a@x.com''),
        (''email'', JStr ''a@x.com''), (''role'', JNull), (''department'', JNull),
        (''phone'', JNull), (''status'', JStr ''Active''), (''tasksAssigned'', JNum 40),
        (''tasksCompleted'', JNum 23), (''tasksInProgress'', JNum 0),
        (''tasksPending'', JNum 17), (''tasksOverdue'', JNum 0),
        (''performanceScore'', JNum 57)]])"
    by (simp add: get_team_def team_report_def select_users_def nofault users member)
  with exact product show ?thesis
    by simp
qed

section \<open>Display names in the analytics report\<close>

lemma top_performer_name:
  assumes "fault st = None" and "top_performer st row = Inr entry"
  shows "opt_prop entry ''name'' =
     (case find (\<lambda>u. JStr (email u) = fst row) (users st) of
        None \<Rightarrow> fst row
      | Some u \<Rightarrow> JStr (trim (full_name u)))"
  using assms by (auto simp: top_performer_def display_name_ok)

lemma recent_entry_user:
  assumes "fault st = None" and "recent_entry st row = Inr entry"
  shows "opt_prop entry ''user'' =
     (case find (\<lambda>u. JStr (email u) = row Assigned_to) (users st) of
        None \<Rightarrow> row Assigned_to
      | Some u \<Rightarrow> JStr (trim (full_name u)))"
  using assms by (auto simp: recent_entry_def display_name_ok)

text \<open>
  Claim C6, as the code has it. On a store that answers, the \<^verbatim>\<open>name\<close> of every
  \<^verbatim>\<open>topPerformers\<close> entry and the \<^verbatim>\<open>user\<close> of every \<^verbatim>\<open>recentActivity\<close> entry of \<^verbatim>\<open>GET /analytics\<close>
  is resolved from the row's \<^verbatim>\<open>assigned_to\<close>: the raw \<^verbatim>\<open>assigned_to\<close> when no user row has
  that email, otherwise the first user row's \<^verbatim>\<open>first_name\<close>, a space and \<^verbatim>\<open>last_name\<close>, each
  read as empty when NULL or empty, and the whole trimmed. So when both names are empty
  the rendered name is the empty string, not a space and not the email.
\<close>

theorem analytics_names_are_trimmed:
  assumes "fault st = None"
  shows "(\<exists>report tops recents topPerformers recentActivity.
        app E st h GetAnalytics = (json report, st)
      \<and> top_performers_rows st = Inr tops
      \<and> recent_rows st = Inr recents
      \<and> opt_prop report ''topPerformers'' = JArr topPerformers
      \<and> length topPerformers = length tops
      \<and> opt_prop report ''recentActivity'' = JArr recentActivity
      \<and> length recentActivity = length recents
      \<and> (\<forall>i < length tops.
            opt_prop (topPerformers ! i) ''name'' =
              (case find (\<lambda>u. JStr (email u) = fst (tops ! i)) (users st) of
                 None \<Rightarrow> fst (tops ! i)
               | Some u \<Rightarrow> JStr (trim (full_name u))))
      \<and> (\<forall>i < length recents.
            opt_prop (recentActivity ! i) ''user'' =
              (case find (\<lambda>u. JStr (email u) = (recents ! i) Assigned_to) (users st) of
                 None \<Rightarrow> (recents ! i) Assigned_to
               | Some u \<Rightarrow> JStr (trim (full_name u)))))
    \<and> (\<forall>u. missing (first_name u) \<and> missing (last_name u) \<longrightarrow> trim (full_name u) = [])"
proof
  from analytics_report_ok [OF assms] obtain tops recents topPerformers recentActivity where
    tops: "top_performers_rows st = Inr tops" and recents: "recent_rows st = Inr recents"
    and tp: "list_all2 (\<lambda>row entry. top_performer st row = Inr entry) tops topPerformers"
    and ra: "list_all2 (\<lambda>row entry. recent_entry st row = Inr entry) recents recentActivity"
    and report: "analytics_report st =
         Inr (JObj [(''totalDelegations'', JNum (int (length (delegations st)))),
                    (''completedDelegations'',
                       JNum (int (length (filter (has_status ''Completed'') (delegations st))))),
                    (''pendingDelegations'',
                       JNum (int (length (filter (has_status ''Pending'') (delegations st))))),
                    (''overdueDelegations'',
                       JNum (int (length (filter (has_status ''Overdue'') (delegations st))))),
                    (''topPerformers'', JArr topPerformers),
                    (''recentActivity'', JArr recentActivity)])"
    by blast
  let ?report = "JObj [(''totalDelegations'', JNum (int (length (delegations st)))),
                    (''completedDelegations'',
                       JNum (int (length (filter (has_status ''Completed'') (delegations st))))),
                    (''pendingDelegations'',
                       JNum (int (length (filter (has_status ''Pending'') (delegations st))))),
                    (''overdueDelegations'',
                       JNum (int (length (filter (has_status ''Overdue'') (delegations st))))),
                    (''topPerformers'', JArr topPerformers),
                    (''recentActivity'', JArr recentActivity)]"
  have run: "app E st h GetAnalytics = (json ?report, st)"
    using report by (simp add: get_analytics_def)
  have fields: "opt_prop ?report ''topPerformers'' = JArr topPerformers"
    "opt_prop ?report ''recentActivity'' = JArr recentActivity"
    by simp_all
  have lens: "length topPerformers = length tops" "length recentActivity = length recents"
    using tp ra by (simp_all add: list_all2_lengthD)
  have names: "\<forall>i < length tops.
            opt_prop (topPerformers ! i) ''name'' =
              (case find (\<lambda>u. JStr (email u) = fst (tops ! i)) (users st) of
                 None \<Rightarrow> fst (tops ! i)
               | Some u \<Rightarrow> JStr (trim (full_name u)))"
    using tp top_performer_name [OF assms] by (simp add: list_all2_conv_all_nth)
  have users: "\<forall>i < length recents.
            opt_prop (recentActivity ! i) ''user'' =
              (case find (\<lambda>u. JStr (email u) = (recents ! i) Assigned_to) (users st) of
                 None \<Rightarrow> (recents ! i) Assigned_to
               | Some u \<Rightarrow> JStr (trim (full_name u)))"
    using ra recent_entry_user [OF assms] by (simp add: list_all2_conv_all_nth)
  from run tops recents fields lens names users
  show "\<exists>report tops recents topPerformers recentActivity.
        app E st h GetAnalytics = (json report, st)
      \<and> top_performers_rows st = Inr tops
      \<and> recent_rows st = Inr recents
      \<and> opt_prop report ''topPerformers'' = JArr topPerformers
      \<and> length topPerformers = length tops
      \<and> opt_prop report ''recentActivity'' = JArr recentActivity
      \<and> length recentActivity = length recents
      \<and> (\<forall>i < length tops.
            opt_prop (topPerformers ! i) ''name'' =
              (case find (\<lambda>u. JStr (email u) = fst (tops ! i)) (users st) of
                 None \<Rightarrow> fst (tops ! i)
               | Some u \<Rightarrow> JStr (trim (full_name u))))
      \<and> (\<forall>i < length recents.
            opt_prop (recentActivity ! i) ''user'' =
              (case find (\<lambda>u. JStr (email u) = (recents ! i) Assigned_to) (users st) of
                 None \<Rightarrow> (recents ! i) Assigned_to
               | Some u \<Rightarrow> JStr (trim (full_name u))))"
    by blast
next
  show "\<forall>u. missing (first_name u) \<and> missing (last_name u) \<longrightarrow> trim (full_name u) = []"
    by (auto simp: missing_def full_name_def or_empty_def trim_space split: option.splits)
qed

text \<open>
  On the fixture: Ann has a user row without names and a completed delegation; the
  stranger \<^verbatim>\<open>z@x.com\<close> has a completed delegation and no user row. Ann's entry is named by
  the empty string, the stranger's by the email.
\<close>

theorem analytics_names_are_trimmed_witness:
  "\<exists>report topPerformers.
       app example_env example_store None GetAnalytics = (json report, example_store)
     \<and> opt_prop report ''topPerformers'' = JArr topPerformers
     \<and> length topPerformers = 2
     \<and> opt_prop (topPerformers ! 0) ''name'' = JStr []
     \<and> opt_prop (topPerformers ! 1) ''name'' = JStr ''z@x.com''
     \<and> trim (full_name ann) = []"
proof -
  have nofault: "fault example_store = None"
    by (simp add: example_store_def)
  have rows: "top_performers_rows example_store = Inr [(JStr ''a@x.com'', 1), (JStr ''z@x.com'', 1)]"
    by (simp add: top_performers_rows_def example_store_def example_row_def has_status_def
        order_by_desc_def)
  have found: "find (\<lambda>u. JStr (email u) = JStr ''a@x.com'') (users example_store) = Some ann"
    "find (\<lambda>u. JStr (email u) = JStr ''z@x.com'') (users example_store) = None"
    by (simp_all add: example_store_def ann_def bob_def)
  have nameless: "missing (first_name ann) \<and> missing (last_name ann)"
    by (simp add: ann_def missing_def)
  from analytics_names_are_trimmed [OF nofault, of example_env None]
  obtain report tops topPerformers where
    run: "app example_env example_store None GetAnalytics = (json report, example_store)"
    and tops: "top_performers_rows example_store = Inr tops"
    and field: "opt_prop report ''topPerformers'' = JArr topPerformers"
    and len: "length topPerformers = length tops"
    and names: "\<forall>i < length tops.
            opt_prop (topPerformers ! i) ''name'' =
              (case find (\<lambda>u. JStr (email u) = fst (tops ! i)) (users example_store) of
                 None \<Rightarrow> fst (tops ! i)
               | Some u \<Rightarrow> JStr (trim (full_name u)))"
    and empty: "\<forall>u. missing (first_name u) \<and> missing (last_name u) \<longrightarrow> trim (full_name u) = []"
    by blast
  from tops rows have tops': "tops = [(JStr ''a@x.com'', 1), (JStr ''z@x.com'', 1)]"
    by simp
  from empty nameless have ann: "trim (full_name ann) = []"
    by blast
  from names [rule_format, of 0] tops' found ann
  have first: "opt_prop (topPerformers ! 0) ''name'' = JStr []"
    by simp
  from names [rule_format, of 1] tops' found
  have second: "opt_prop (topPerformers ! 1) ''name'' = JStr ''z@x.com''"
    by simp
  from len tops' have "length topPerformers = 2"
    by simp
  with run field first second ann show ?thesis
    by blast
qed

text \<open>
  Claim C6 as the specification words it fails: with a matching user row whose names are
  both empty the claim has a single space as the name. On the fixture the name of Ann's
  entry is the empty string.
\<close>

theorem single_space_name_counterexample:
  "opt_prop (body (fst (app example_env example_store None GetAnalytics))) ''topPerformers''
     = JArr [JObj [(''name'', JStr []), (''completed'', JNum 1)],
             JObj [(''name'', JStr ''z@x.com''), (''completed'', JNum 1)]]
   \<and> opt_prop (body (fst (app example_env example_store None GetAnalytics))) ''recentActivity''
     = JArr [JObj [(''task'', JStr ''Survey''), (''user'', JStr ''z@x.com''), (''date'', JNum 30)],
             JObj [(''task'', JStr ''Audit''), (''user'', JStr []), (''date'', JNum 20)]]
   \<and> display_name example_store (JStr ''a@x.com'') \<noteq> Inr (JStr '' '')"
proof -
  have names: "display_name example_store (JStr ''a@x.com'') = Inr (JStr [])"
    "display_name example_store (JStr ''z@x.com'') = Inr (JStr ''z@x.com'')"
    by (simp_all add: display_name_def select_user_def example_store_def ann_def bob_def
        full_name_def or_empty_def trim_space)
  have tops: "top_performers_rows example_store = Inr [(JStr ''a@x.com'', 1), (JStr ''z@x.com'', 1)]"
    by (simp add: top_performers_rows_def example_store_def example_row_def has_status_def
        order_by_desc_def)
  have recents: "recent_rows example_store =
      Inr [example_row 3 ''Survey'' ''z@x.com'' ''Completed'' (JNum 30),
           example_row 1 ''Audit'' ''a@x.com'' ''Completed'' (JNum 20)]"
    by (simp add: recent_rows_def example_store_def example_row_def has_status_def
        order_by_desc_def instant_def)
  have counts: "count_where example_store P = Inr (length (filter P (delegations example_store)))" for P
    by (simp add: count_where_def example_store_def)
  have lens: "length (filter (\<lambda>r. True) (delegations example_store)) = 3"
    "length (filter (has_status ''Completed'') (delegations example_store)) = 2"
    "length (filter (has_status ''Pending'') (delegations example_store)) = 0"
    "length (filter (has_status ''Overdue'') (delegations example_store)) = 0"
    by (simp_all add: example_store_def example_row_def has_status_def)
  have tp: "map_throw (top_performer example_store) [(JStr ''a@x.com'', 1), (JStr ''z@x.com'', 1)]
      = Inr [JObj [(''name'', JStr []), (''completed'', JNum 1)],
             JObj [(''name'', JStr ''z@x.com''), (''completed'', JNum 1)]]"
    by (simp add: top_performer_def names)
  have ra: "map_throw (recent_entry example_store)
        [example_row 3 ''Survey'' ''z@x.com'' ''Completed'' (JNum 30),
         example_row 1 ''Audit'' ''a@x.com'' ''Completed'' (JNum 20)]
      = Inr [JObj [(''task'', JStr ''Survey''), (''user'', JStr ''z@x.com''), (''date'', JNum 30)],
             JObj [(''task'', JStr ''Audit''), (''user'', JStr []), (''date'', JNum 20)]]"
    by (simp add: recent_entry_def example_row_def names)
  have report: "analytics_report example_store =
      Inr (JObj [(''totalDelegations'', JNum 3), (''completedDelegations'', JNum 2),
        (''pendingDelegations'', JNum 0), (''overdueDelegations'', JNum 0),
        (''topPerformers'',
           JArr [JObj [(''name'', JStr []), (''completed'', JNum 1)],
                 JObj [(''name'', JStr ''z@x.com''), (''completed'', JNum 1)]]),
        (''recentActivity'',
           JArr [JObj [(''task'', JStr ''Survey''), (''user'', JStr ''z@x.com''), (''date'', JNum 30)],
                 JObj [(''task'', JStr ''Audit''), (''user'', JStr []), (''date'', JNum 20)]])])"
    unfolding analytics_report_def counts tops recents lens and_then_simps tp ra
    by simp
  show ?thesis
    by (simp add: get_analytics_def report json_def names)
qed

section \<open>Participants on update\<close>

lemma participant_cases:
  "participant v = (if truthy (opt_prop v ''email'') then opt_prop v ''email'' else JNull)"
  by (simp add: participant_def js_or_def)








text \<open>
  The same string under \<^verbatim>\<open>assignedBy\<close> does not reach the store at all: \<^verbatim>\<open>assigned_by\<close> is
  \<^verbatim>\<open>NOT NULL\<close>, the statement is rejected and the response is 500.
\<close>

lemma plain_string_assigner_rejected:
  "app example_env example_store None
     (PutDelegation 1 (JObj [(''taskName'', JStr ''Audit''), (''assignedBy'', JStr ''b@x.com''),
                             (''assignedTo'', JObj [(''email'', JStr ''a@x.com'')])]))
   = (status_json 500 (error_details ''Server error''
        ''null value in column \"assigned_by\" violates not-null constraint''), example_store)"
  by (simp add: put_delegation_def attachment_names_def field_def update_delegation_def
      updated_rows_def example_store_def example_row_def set_columns_def update_params_def
      null_column_def not_null_columns_def participant_cases opt_prop_def
      bind_def not_null_violation_def)

end
